theory Spec2Isabelle
  imports Main "HOL-Library.Word" "HOL-Library.AList"
begin

section \<open>Outcomes of Go code\<close>

text \<open>
  A Go function either returns, or the process stops: a run-time panic (index out of
  range, nil dereference, slice bounds out of range) or \<open>handleError\<close>'s
  \<open>log.Fatalf\<close>. Both are values of the model. A loop that may run forever is
  a \<^theory_text>\<open>partial_function\<close> in the option monad: \<open>None\<close> is "does not return".

  The miner keeps its chain, its pending pool and its roster in process globals behind
  locks. The model is sequential: every function takes the globals it reads as arguments
  and returns the ones it writes; the locks themselves are not modelled.
\<close>

datatype 'a outcome = Returns 'a | Crashes

section \<open>Data model\<close>

text \<open>
  The structs of package \<open>blockchain\<close> and \<open>blockartlib\<close>, with the fields
  the miner uses. \<open>uint32\<close> and \<open>uint8\<close> are words; Go's \<open>int\<close> (64 bit) is
  \<open>int\<close>: a balance is a sum of at most one \<open>uint32\<close> per block and per
  operation of the chain, far from 64 bits.

  A Go map is an association list with distinct keys. Its order stands for the order in
  which \<open>range\<close> happens to visit the map, which Go leaves unspecified.
\<close>

record PublicKey =
  Curve :: string
  KeyX :: int
  KeyY :: int

record OpRecord =
  Op :: string
  InkUsed :: "32 word"
  OpSigR :: int
  OpSigS :: int
  AuthorPubKey :: PublicKey

text \<open>\<open>MinerPubKey\<close> is a pointer, \<open>None\<close> is \<open>nil\<close>.\<close>

record Block =
  BlockNum :: "32 word"
  PrevHash :: string
  OpRecords :: "(string \<times> OpRecord) list"
  MinerPubKey :: "PublicKey option"
  Nonce :: "32 word"

record BlockChain =
  Blocks :: "(string \<times> Block) list"
  NewestHash :: string

record CanvasSettings =
  CanvasXMax :: "32 word"
  CanvasYMax :: "32 word"

record MinerNetSettings =
  GenesisBlockHash :: string
  InkPerOpBlock :: "32 word"
  InkPerNoOpBlock :: "32 word"
  PoWDifficultyOpBlock :: "8 word"
  PoWDifficultyNoOpBlock :: "8 word"
  canvasSettings :: CanvasSettings

text \<open>
  The miner's key pair and settings. The field \<open>pubKey\<close> is \<open>minerKey\<close> here,
  since \<open>pubKey\<close> is also the name of a parameter of most functions.
\<close>

record InkMiner =
  minerKey :: PublicKey
  settings :: MinerNetSettings

text \<open>The globals \<open>blockChain\<close> and \<open>pendingOperations.all\<close>.\<close>

record globals =
  blockChain :: BlockChain
  pendingOperations :: "(string \<times> OpRecord) list"

datatype error =
  INSUFFICIENTINK | SHAPEOVERLAP | OUTOFBOUNDS | INVALIDSHAPEHASH
  | INVALIDBLOCKHASH | SHAPEOWNER | INVALIDPRIVKEY | MISC string

text \<open>
  \<open>reflect.DeepEqual\<close> on public keys. Two values of different types are never
  deeply equal, so a key compared with a pointer to a key is unequal; two pointers are
  equal when both are nil or their targets are deeply equal.
\<close>

datatype key_operand = KeyValue PublicKey | KeyPointer "PublicKey option"

fun reflect_DeepEqual :: "key_operand \<Rightarrow> key_operand \<Rightarrow> bool" where
  "reflect_DeepEqual (KeyValue a) (KeyValue b) = (a = b)"
| "reflect_DeepEqual (KeyPointer a) (KeyPointer b) = (a = b)"
| "reflect_DeepEqual _ _ = False"

section \<open>Strings\<close>

text \<open>
  \<open>strings.Split(s, sep)\<close> for a non-empty separator cuts \<open>s\<close> at the leftmost
  non-overlapping occurrences of \<open>sep\<close>; the result has at least one element.
  The miner only calls it with non-empty literal separators.
\<close>

function strings_Split_from :: "string \<Rightarrow> string \<Rightarrow> string \<Rightarrow> string list" where
  "strings_Split_from sep cur s =
     (if s = [] then [cur]
      else if sep \<noteq> [] \<and> take (length sep) s = sep
           then cur # strings_Split_from sep [] (drop (length sep) s)
      else strings_Split_from sep (cur @ [hd s]) (tl s))"
  by pat_completeness auto
termination
  by (relation "measure (\<lambda>(sep, cur, s). length s)") auto

definition strings_Split :: "string \<Rightarrow> string \<Rightarrow> string list" where
  "strings_Split s sep = strings_Split_from sep [] s"

text \<open>
  \<open>strings.EqualFold\<close> compares under Unicode simple case folding. The miner
  compares with \<open>"delete"\<close> only, whose letters fold with their ASCII upper case
  and nothing else, so ASCII folding decides the same.
\<close>

definition ascii_lower :: "char \<Rightarrow> char" where
  "ascii_lower c =
     (case map_of (zip ''ABCDEFGHIJKLMNOPQRSTUVWXYZ'' ''abcdefghijklmnopqrstuvwxyz'') c of
        Some l \<Rightarrow> l
      | None \<Rightarrow> c)"

definition strings_EqualFold :: "string \<Rightarrow> string \<Rightarrow> bool" where
  "strings_EqualFold s t = (map ascii_lower s = map ascii_lower t)"

text \<open>
  \<^verbatim>\<open>
  func isOpDelete(shapeSvgString string) bool {
      buf := strings.Split(shapeSvgString, " ")
      return strings.EqualFold(buf[0], "delete")
  }
  \<close>
\<close>

definition isOpDelete :: "string \<Rightarrow> bool" where
  "isOpDelete shapeSvgString =
     (case strings_Split shapeSvgString '' '' of
        [] \<Rightarrow> False
      | b # _ \<Rightarrow> strings_EqualFold b ''delete'')"

text \<open>
  \<^verbatim>\<open>
  func parsePath(shapeSVGString string) (string, string) {
      buf := strings.Split(shapeSVGString, "d=\"")
      bufTwo := strings.Split(buf[1], "\" s")
      bufThree := strings.Split(bufTwo[1], "fill=\"")
      bufFour := strings.Split(bufThree[1], "\"")
      return bufTwo[0], bufFour[0]
  }
  \<close>
  Each \<open>[1]\<close> panics when the separator does not occur.
\<close>

definition parsePath :: "string \<Rightarrow> (string \<times> string) outcome" where
  "parsePath shapeSVGString =
     (case strings_Split shapeSVGString ''d=\"'' of
        _ # buf1 # _ \<Rightarrow>
          (case strings_Split buf1 ''\" s'' of
             bufTwo0 # bufTwo1 # _ \<Rightarrow>
               (case strings_Split bufTwo1 ''fill=\"'' of
                  _ # bufThree1 # _ \<Rightarrow>
                    (case strings_Split bufThree1 ''\"'' of
                       bufFour0 # _ \<Rightarrow> Returns (bufTwo0, bufFour0)
                     | [] \<Rightarrow> Crashes)
                | _ \<Rightarrow> Crashes)
           | _ \<Rightarrow> Crashes)
      | _ \<Rightarrow> Crashes)"

section \<open>Proof of work: \<open>verifyTrailingZeros\<close>\<close>

text \<open>
  \<^verbatim>\<open>
  func verifyTrailingZeros(hash string, numZeros uint8) bool {
      for i := uint8(0); i < numZeros; i++ {
          if hash[31-i] != '0' { return false }
      }
      return true
  }
  \<close>
  The counter \<open>i\<close> and the index \<open>31-i\<close> are \<open>uint8\<close>: the subtraction wraps
  around, and indexing a string beyond its length panics.
\<close>

function verifyTrailingZeros_loop :: "string \<Rightarrow> 8 word \<Rightarrow> 8 word \<Rightarrow> bool outcome" where
  "verifyTrailingZeros_loop hash numZeros i =
     (if i < numZeros then
        (if unat (31 - i) < length hash then
           (if hash ! unat (31 - i) \<noteq> CHR ''0'' then Returns False
            else verifyTrailingZeros_loop hash numZeros (i + 1))
         else Crashes)
      else Returns True)"
  by pat_completeness auto
termination
proof (relation "measure (\<lambda>(hash, numZeros, i). unat numZeros - unat i)")
  show "wf (measure (\<lambda>(hash, numZeros, i). unat numZeros - unat i))"
    by simp
next
  fix hash :: string and numZeros i :: "8 word"
  assume lt: "i < numZeros"
  then have "unat i < unat numZeros"
    by (simp add: word_less_nat_alt)
  moreover have "unat numZeros < 256"
    using unsigned_less [of numZeros, where ?'a = nat] by simp
  ultimately have "unat (i + 1) = unat i + 1"
    by (simp add: unat_word_ariths)
  with \<open>unat i < unat numZeros\<close>
  show "((hash, numZeros, i + 1), (hash, numZeros, i))
          \<in> measure (\<lambda>(hash, numZeros, i). unat numZeros - unat i)"
    by simp
qed

definition verifyTrailingZeros :: "string \<Rightarrow> 8 word \<Rightarrow> bool outcome" where
  "verifyTrailingZeros hash numZeros = verifyTrailingZeros_loop hash numZeros 0"

section \<open>Ledger views: traversals from the tip to genesis\<close>

text \<open>
  Every traversal is the loop
  \<^verbatim>\<open>for blockHash := newestHash; blockHash != genesis; blockHash = blockChain.Blocks[blockHash].PrevHash\<close>.
  A hash that is not in the store yields a nil block, whose first field access panics.
  A store whose \<open>PrevHash\<close> links form a cycle keeps the loop running.
\<close>

subsection \<open>\<open>GetOpRecordTraversal\<close>\<close>

text \<open>
  The result is \<open>None\<close> where the source returns \<open>exists = false\<close> (with a zero
  record and an empty hash), and the record with the hash of its block otherwise.
\<close>

partial_function (option) GetOpRecordTraversal_loop ::
  "BlockChain \<Rightarrow> string \<Rightarrow> string \<Rightarrow> string \<Rightarrow> (OpRecord \<times> string) option outcome option" where
  "GetOpRecordTraversal_loop bc shapeHash genesisBlockHash blockHash =
     (if blockHash = genesisBlockHash then Some (Returns None)
      else case map_of (Blocks bc) blockHash of
        None \<Rightarrow> Some Crashes
      | Some block \<Rightarrow>
          (case (if OpRecords block \<noteq> [] then map_of (OpRecords block) shapeHash else None) of
             Some opRecord \<Rightarrow> Some (Returns (Some (opRecord, blockHash)))
           | None \<Rightarrow>
               GetOpRecordTraversal_loop bc shapeHash genesisBlockHash (PrevHash block)))"

definition GetOpRecordTraversal ::
  "BlockChain \<Rightarrow> string \<Rightarrow> string \<Rightarrow> (OpRecord \<times> string) option outcome option" where
  "GetOpRecordTraversal bc shapeHash genesisBlockHash =
     GetOpRecordTraversal_loop bc shapeHash genesisBlockHash (NewestHash bc)"

subsection \<open>\<open>GetInkTraversal\<close> (the miner with N-confirmation)\<close>

text \<open>
  \<^verbatim>\<open>
  for _, opRecord := range block.OpRecords {
      if reflect.DeepEqual(opRecord.AuthorPubKey, *pubKey) {
          if isOpDelete(opRecord.Op) { inkRemaining += int(opRecord.InkUsed) }
          else                       { inkRemaining -= int(opRecord.InkUsed) }
      }
  }
  \<close>
\<close>

fun GetInkTraversal_ops :: "PublicKey \<Rightarrow> (string \<times> OpRecord) list \<Rightarrow> int \<Rightarrow> int" where
  "GetInkTraversal_ops pubKey [] inkRemaining = inkRemaining"
| "GetInkTraversal_ops pubKey ((h, opRecord) # ops) inkRemaining =
     GetInkTraversal_ops pubKey ops
       (if reflect_DeepEqual (KeyValue (AuthorPubKey opRecord)) (KeyValue pubKey)
        then (if isOpDelete (Op opRecord) then inkRemaining + uint (InkUsed opRecord)
              else inkRemaining - uint (InkUsed opRecord))
        else inkRemaining)"

text \<open>
  The block's miner is compared as \<open>reflect.DeepEqual(*block.MinerPubKey, *pubKey)\<close>:
  the dereference panics on a nil \<open>MinerPubKey\<close>.
\<close>

partial_function (option) GetInkTraversal_loop ::
  "InkMiner \<Rightarrow> BlockChain \<Rightarrow> PublicKey \<Rightarrow> string \<Rightarrow> int \<Rightarrow> int outcome option" where
  "GetInkTraversal_loop inkMiner bc pubKey blockHash inkRemaining =
     (if blockHash = GenesisBlockHash (settings inkMiner) then Some (Returns inkRemaining)
      else case map_of (Blocks bc) blockHash of
        None \<Rightarrow> Some Crashes
      | Some block \<Rightarrow>
          (case MinerPubKey block of
             None \<Rightarrow> Some Crashes
           | Some minerPubKey \<Rightarrow>
               if OpRecords block = [] then
                 GetInkTraversal_loop inkMiner bc pubKey (PrevHash block)
                   (if reflect_DeepEqual (KeyValue minerPubKey) (KeyValue pubKey)
                    then inkRemaining + uint (InkPerNoOpBlock (settings inkMiner))
                    else inkRemaining)
               else
                 GetInkTraversal_loop inkMiner bc pubKey (PrevHash block)
                   (GetInkTraversal_ops pubKey (OpRecords block)
                      (if reflect_DeepEqual (KeyValue minerPubKey) (KeyValue pubKey)
                       then inkRemaining + uint (InkPerOpBlock (settings inkMiner))
                       else inkRemaining))))"

definition GetInkTraversal :: "InkMiner \<Rightarrow> BlockChain \<Rightarrow> PublicKey \<Rightarrow> int outcome option" where
  "GetInkTraversal inkMiner bc pubKey =
     GetInkTraversal_loop inkMiner bc pubKey (NewestHash bc) 0"

subsection \<open>\<open>getInkTraversal\<close> (\<open>ink-miner.go\<close>)\<close>

text \<open>
  The same loop in \<open>ink-miner.go\<close> compares without dereferencing:
  \<open>reflect.DeepEqual(block.MinerPubKey, pubKey)\<close> has two pointers, and
  \<open>reflect.DeepEqual(opRecord.AuthorPubKey, pubKey)\<close> has a key and a pointer.
\<close>

fun getInkTraversal_ops :: "PublicKey \<Rightarrow> (string \<times> OpRecord) list \<Rightarrow> int \<Rightarrow> int" where
  "getInkTraversal_ops pubKey [] inkRemaining = inkRemaining"
| "getInkTraversal_ops pubKey ((h, opRecord) # ops) inkRemaining =
     getInkTraversal_ops pubKey ops
       (if reflect_DeepEqual (KeyValue (AuthorPubKey opRecord)) (KeyPointer (Some pubKey))
        then (if isOpDelete (Op opRecord) then inkRemaining + uint (InkUsed opRecord)
              else inkRemaining - uint (InkUsed opRecord))
        else inkRemaining)"

partial_function (option) getInkTraversal_loop ::
  "InkMiner \<Rightarrow> BlockChain \<Rightarrow> PublicKey \<Rightarrow> string \<Rightarrow> int \<Rightarrow> int outcome option" where
  "getInkTraversal_loop inkMiner bc pubKey blockHash inkRemaining =
     (if blockHash = GenesisBlockHash (settings inkMiner) then Some (Returns inkRemaining)
      else case map_of (Blocks bc) blockHash of
        None \<Rightarrow> Some Crashes
      | Some block \<Rightarrow>
          if OpRecords block = [] then
            getInkTraversal_loop inkMiner bc pubKey (PrevHash block)
              (if reflect_DeepEqual (KeyPointer (MinerPubKey block)) (KeyPointer (Some pubKey))
               then inkRemaining + uint (InkPerNoOpBlock (settings inkMiner))
               else inkRemaining)
          else
            getInkTraversal_loop inkMiner bc pubKey (PrevHash block)
              (getInkTraversal_ops pubKey (OpRecords block)
                 (if reflect_DeepEqual (KeyPointer (MinerPubKey block)) (KeyPointer (Some pubKey))
                  then inkRemaining + uint (InkPerOpBlock (settings inkMiner))
                  else inkRemaining)))"

definition getInkTraversal :: "InkMiner \<Rightarrow> BlockChain \<Rightarrow> PublicKey \<Rightarrow> int outcome option" where
  "getInkTraversal inkMiner bc pubKey =
     getInkTraversal_loop inkMiner bc pubKey (NewestHash bc) 0"

subsection \<open>\<open>GetShapeTraversal\<close>\<close>

text \<open>
  \<^verbatim>\<open>
  func removeShapesDeleted(allShapes []string, shapesToDelete []string) []string {
      for i, svgShape := range allShapes {
          for _, shapesToDelete := range shapesToDelete {
              if svgShape == shapesToDelete {
                  allShapes = append(allShapes[:i], allShapes[i+1:]...)
              }
          }
      }
      return allShapes
  }
  \<close>
  \<open>range\<close> fixes the slice and its length when the loop starts and reads element
  \<open>i\<close> from the backing array at iteration \<open>i\<close>. The \<open>append\<close> fits the
  capacity, so it shifts the tail of the same backing array one place to the left and
  makes the variable \<open>allShapes\<close> one shorter; the last place of the array keeps its
  old content. \<open>allShapes[i+1:]\<close> panics when \<open>i+1\<close> exceeds the current length.
  The state of the loop is the backing array and the current length.
\<close>

fun removeShapesDeleted_inner ::
  "nat \<Rightarrow> string \<Rightarrow> string list \<Rightarrow> string list \<times> nat \<Rightarrow> (string list \<times> nat) outcome" where
  "removeShapesDeleted_inner i svgShape [] st = Returns st"
| "removeShapesDeleted_inner i svgShape (d # ds) (arr, len) =
     (if svgShape = d then
        (if i + 1 \<le> len then
           removeShapesDeleted_inner i svgShape ds
             (take i arr @ take (len - (i + 1)) (drop (i + 1) arr) @ drop (len - 1) arr, len - 1)
         else Crashes)
      else removeShapesDeleted_inner i svgShape ds (arr, len))"

fun removeShapesDeleted_outer ::
  "nat list \<Rightarrow> string list \<Rightarrow> string list \<times> nat \<Rightarrow> (string list \<times> nat) outcome" where
  "removeShapesDeleted_outer [] shapesToDelete st = Returns st"
| "removeShapesDeleted_outer (i # is) shapesToDelete (arr, len) =
     (case removeShapesDeleted_inner i (arr ! i) shapesToDelete (arr, len) of
        Crashes \<Rightarrow> Crashes
      | Returns st \<Rightarrow> removeShapesDeleted_outer is shapesToDelete st)"

definition removeShapesDeleted :: "string list \<Rightarrow> string list \<Rightarrow> string list outcome" where
  "removeShapesDeleted allShapes shapesToDelete =
     (case removeShapesDeleted_outer [0..<length allShapes] shapesToDelete
             (allShapes, length allShapes) of
        Crashes \<Rightarrow> Crashes
      | Returns (arr, len) \<Rightarrow> Returns (take len arr))"

text \<open>
  \<^verbatim>\<open>
  for _, opRecord := range opRecords {
      if !reflect.DeepEqual(opRecord.AuthorPubKey, *pubKey) {
          svgPath, _ := parsePath(opRecord.Op)
          if isOpDelete(opRecord.Op) { shapesToDelete = append(shapesToDelete, svgPath) }
          else { shapesDrawnByOtherApps = append(shapesDrawnByOtherApps, svgPath) }
      }
  }
  shapesDrawnByOtherApps = removeShapesDeleted(shapesDrawnByOtherApps, shapesToDelete)
  \<close>
\<close>

fun getShapesFromOpRecords_loop ::
  "(string \<times> OpRecord) list \<Rightarrow> PublicKey \<Rightarrow> string list \<Rightarrow> string list
     \<Rightarrow> (string list \<times> string list) outcome" where
  "getShapesFromOpRecords_loop [] pubKey shapesDrawnByOtherApps shapesToDelete =
     Returns (shapesDrawnByOtherApps, shapesToDelete)"
| "getShapesFromOpRecords_loop ((h, opRecord) # ops) pubKey shapesDrawnByOtherApps shapesToDelete =
     (if \<not> reflect_DeepEqual (KeyValue (AuthorPubKey opRecord)) (KeyValue pubKey) then
        (case parsePath (Op opRecord) of
           Crashes \<Rightarrow> Crashes
         | Returns (svgPath, fill) \<Rightarrow>
             if isOpDelete (Op opRecord)
             then getShapesFromOpRecords_loop ops pubKey shapesDrawnByOtherApps
                    (shapesToDelete @ [svgPath])
             else getShapesFromOpRecords_loop ops pubKey (shapesDrawnByOtherApps @ [svgPath])
                    shapesToDelete)
      else getShapesFromOpRecords_loop ops pubKey shapesDrawnByOtherApps shapesToDelete)"

definition getShapesFromOpRecords ::
  "(string \<times> OpRecord) list \<Rightarrow> PublicKey \<Rightarrow> string list outcome" where
  "getShapesFromOpRecords opRecords pubKey =
     (case getShapesFromOpRecords_loop opRecords pubKey [] [] of
        Crashes \<Rightarrow> Crashes
      | Returns (shapesDrawnByOtherApps, shapesToDelete) \<Rightarrow>
          removeShapesDeleted shapesDrawnByOtherApps shapesToDelete)"

partial_function (option) GetShapeTraversal_loop ::
  "InkMiner \<Rightarrow> BlockChain \<Rightarrow> PublicKey \<Rightarrow> string \<Rightarrow> string list \<Rightarrow> string list outcome option" where
  "GetShapeTraversal_loop inkMiner bc pubKey blockHash shapesDrawnByOtherApps =
     (if blockHash = GenesisBlockHash (settings inkMiner) then Some (Returns shapesDrawnByOtherApps)
      else case map_of (Blocks bc) blockHash of
        None \<Rightarrow> Some Crashes
      | Some block \<Rightarrow>
          if OpRecords block \<noteq> [] then
            (case getShapesFromOpRecords (OpRecords block) pubKey of
               Crashes \<Rightarrow> Some Crashes
             | Returns shapes \<Rightarrow>
                 GetShapeTraversal_loop inkMiner bc pubKey (PrevHash block)
                   (shapesDrawnByOtherApps @ shapes))
          else GetShapeTraversal_loop inkMiner bc pubKey (PrevHash block) shapesDrawnByOtherApps)"

definition GetShapeTraversal :: "InkMiner \<Rightarrow> BlockChain \<Rightarrow> PublicKey \<Rightarrow> string list outcome option" where
  "GetShapeTraversal inkMiner bc pubKey =
     GetShapeTraversal_loop inkMiner bc pubKey (NewestHash bc) []"

section \<open>What the miner takes from libraries and from the geometry package\<close>

text \<open>
  The libraries are parameters of the model: the MD5 digest of the JSON encoding of a
  block and of an operation (16 bytes, a 128-bit word), ECDSA verification, and the
  geometry functions of package \<open>util\<close>. \<open>CheckOutOfBounds\<close> and
  \<open>CheckOverlap\<close> are \<open>True\<close> where the Go functions return a non-nil error.
  Signing draws randomness; the signature a call obtains is an argument of that call.
\<close>

type_synonym points = "(int \<times> int) list"

record externals =
  md5_json_Block :: "Block \<Rightarrow> 128 word"
  md5_json_OpRecord :: "OpRecord \<Rightarrow> 128 word"
  md5_json_BlockChain :: "BlockChain \<Rightarrow> 128 word"
  ecdsa_Verify :: "PublicKey \<Rightarrow> string \<Rightarrow> int \<Rightarrow> int \<Rightarrow> bool"
  ConvertPathToPoints :: "string \<Rightarrow> points"
  CheckOutOfBounds :: "points \<Rightarrow> 32 word \<Rightarrow> 32 word \<Rightarrow> bool"
  CheckOverlap :: "points \<Rightarrow> points \<Rightarrow> bool"
  CalculateInkRequired :: "points \<Rightarrow> bool \<Rightarrow> bool \<Rightarrow> 32 word"
  ConvertToSvgPathString :: "string \<Rightarrow> string \<Rightarrow> string \<Rightarrow> string"

text \<open>
  \<open>hex.EncodeToString\<close> of the 16 bytes of a digest: 32 lowercase hexadecimal
  digits, the most significant first.
\<close>

definition hexdigit :: "nat \<Rightarrow> char" where
  "hexdigit n = ''0123456789abcdef'' ! n"

definition hex_EncodeToString :: "128 word \<Rightarrow> string" where
  "hex_EncodeToString w =
     map (\<lambda>i. hexdigit (unat (drop_bit (4 * (31 - i)) w) mod 16)) [0..<32]"

definition ComputeBlockHash :: "externals \<Rightarrow> Block \<Rightarrow> string" where
  "ComputeBlockHash ext block = hex_EncodeToString (md5_json_Block ext block)"

definition ComputeOpRecordHash :: "externals \<Rightarrow> OpRecord \<Rightarrow> string" where
  "ComputeOpRecordHash ext opRecord = hex_EncodeToString (md5_json_OpRecord ext opRecord)"

section \<open>N-confirmation\<close>

text \<open>
  \<^verbatim>\<open>
  func VerifyOpRecordAuthor(requestorPublicKey ecdsa.PublicKey, opRecord blockchain.OpRecord) bool {
      return reflect.DeepEqual(requestorPublicKey, opRecord.AuthorPubKey) &&
          ecdsa.Verify(&opRecord.AuthorPubKey, []byte(opRecord.Op), opRecord.OpSigR, opRecord.OpSigS)
  }
  \<close>
\<close>

definition VerifyOpRecordAuthor :: "externals \<Rightarrow> PublicKey \<Rightarrow> OpRecord \<Rightarrow> bool" where
  "VerifyOpRecordAuthor ext requestorPublicKey opRecord =
     (reflect_DeepEqual (KeyValue requestorPublicKey) (KeyValue (AuthorPubKey opRecord)) \<and>
      ecdsa_Verify ext (AuthorPubKey opRecord) (Op opRecord) (OpSigR opRecord) (OpSigS opRecord))"

text \<open>
  \<open>IsValidatedByValidateNum\<close> polls the globals, which other goroutines change
  between polls. Its argument here is the list of the globals as each poll finds them;
  \<open>None\<close> is "still waiting after the last of them". The outer loop waits until
  the operation has left the pending pool and enters the inner loop at the same poll;
  the inner loop never looks at the pending pool again.
  \<^verbatim>\<open>
  for {
      if _, exists := pendingOperations.all[opRecordHash]; !exists {
          for {
              if opRecord, blockHash, exists := GetOpRecordTraversal(opRecordHash, genesisBlockHash); exists {
                  blockNumOfOp := blockChain.Blocks[blockHash].BlockNum
                  newestBlockNum := blockChain.Blocks[blockChain.NewestHash].BlockNum
                  if newestBlockNum-blockNumOfOp >= uint32(validateNum) {
                      if VerifyOpRecordAuthor(*pubKey, opRecord) { return blockHash, true }
                  }
              } else { return "", false }
              time.Sleep(2 * time.Second)
          }
      }
      time.Sleep(2 * time.Second)
  }
  \<close>
\<close>

fun IsValidatedByValidateNum_inner ::
  "externals \<Rightarrow> globals list \<Rightarrow> string \<Rightarrow> 8 word \<Rightarrow> string \<Rightarrow> PublicKey
     \<Rightarrow> (string \<times> bool) outcome option" where
  "IsValidatedByValidateNum_inner ext [] opRecordHash validateNum genesisBlockHash pubKey = None"
| "IsValidatedByValidateNum_inner ext (g # later) opRecordHash validateNum genesisBlockHash pubKey =
     (case GetOpRecordTraversal (blockChain g) opRecordHash genesisBlockHash of
        None \<Rightarrow> None
      | Some Crashes \<Rightarrow> Some Crashes
      | Some (Returns None) \<Rightarrow> Some (Returns ([], False))
      | Some (Returns (Some (opRecord, blockHash))) \<Rightarrow>
          (case map_of (Blocks (blockChain g)) blockHash of
             None \<Rightarrow> Some Crashes
           | Some blockOfOp \<Rightarrow>
               (case map_of (Blocks (blockChain g)) (NewestHash (blockChain g)) of
                  None \<Rightarrow> Some Crashes
                | Some newestBlock \<Rightarrow>
                    if BlockNum newestBlock - BlockNum blockOfOp \<ge> ucast validateNum
                       \<and> VerifyOpRecordAuthor ext pubKey opRecord
                    then Some (Returns (blockHash, True))
                    else IsValidatedByValidateNum_inner ext later opRecordHash validateNum
                           genesisBlockHash pubKey)))"

fun IsValidatedByValidateNum ::
  "externals \<Rightarrow> globals list \<Rightarrow> string \<Rightarrow> 8 word \<Rightarrow> string \<Rightarrow> PublicKey
     \<Rightarrow> (string \<times> bool) outcome option" where
  "IsValidatedByValidateNum ext [] opRecordHash validateNum genesisBlockHash pubKey = None"
| "IsValidatedByValidateNum ext (g # later) opRecordHash validateNum genesisBlockHash pubKey =
     (if map_of (pendingOperations g) opRecordHash = None
      then IsValidatedByValidateNum_inner ext (g # later) opRecordHash validateNum
             genesisBlockHash pubKey
      else IsValidatedByValidateNum ext later opRecordHash validateNum genesisBlockHash pubKey)"

section \<open>Gossip of operations\<close>

text \<open>
  \<open>sendToAllConnectedMiners\<close> calls the procedure on every connected miner. The
  model records each call of it as one message; the roster is not modelled.
\<close>

datatype message = SendOperation OpRecord | SendBlock Block

text \<open>
  \<^verbatim>\<open>
  func (s *MServer) DisseminateOperation(op blockchain.OpRecord, _ignore *bool) error {
      opRecordHash := ComputeOpRecordHash(op)
      if _, exists := pendingOperations.all[opRecordHash]; !exists {
          pendingOperations.all[opRecordHash] = &blockchain.OpRecord{ ...the fields of op... }
          sendToAllConnectedMiners("MServer.DisseminateOperation", op, nil)
          return nil
      }
      return nil
  }
  \<close>
  The result is the error, the pending pool and the messages sent.
\<close>

definition DisseminateOperation ::
  "externals \<Rightarrow> (string \<times> OpRecord) list \<Rightarrow> OpRecord
     \<Rightarrow> error option \<times> (string \<times> OpRecord) list \<times> message list" where
  "DisseminateOperation ext pending op =
     (let opRecordHash = ComputeOpRecordHash ext op in
      if map_of pending opRecordHash = None
      then (None,
            pending @ [(opRecordHash,
              \<lparr>Op = Op op, InkUsed = InkUsed op, OpSigR = OpSigR op, OpSigS = OpSigS op,
               AuthorPubKey = AuthorPubKey op\<rparr>)],
            [SendOperation op])
      else (None, pending, []))"

text \<open>\<open>broadcastNewOperation\<close> is the same with the hash computed by its caller.\<close>

definition broadcastNewOperation ::
  "(string \<times> OpRecord) list \<Rightarrow> OpRecord \<Rightarrow> string
     \<Rightarrow> error option \<times> (string \<times> OpRecord) list \<times> message list" where
  "broadcastNewOperation pending op opRecordHash =
     (if map_of pending opRecordHash = None
      then (None,
            pending @ [(opRecordHash,
              \<lparr>Op = Op op, InkUsed = InkUsed op, OpSigR = OpSigR op, OpSigS = OpSigS op,
               AuthorPubKey = AuthorPubKey op\<rparr>)],
            [SendOperation op])
      else (None, pending, []))"

section \<open>The art-node service\<close>

subsection \<open>\<open>GetInk\<close>\<close>

text \<open>
  \<^verbatim>\<open>
  ink := GetInkTraversal(a.inkMiner, a.inkMiner.pubKey)
  if ink < 0 { fmt.Printf("Get ink got back negative ink %d", *inkRemaining) }
  *inkRemaining = uint32(ink)
  return nil
  \<close>
  The conversion \<open>uint32(ink)\<close> keeps the low 32 bits. The result is the error and
  the value written to \<open>*inkRemaining\<close>.
\<close>

definition GetInk :: "InkMiner \<Rightarrow> BlockChain \<Rightarrow> (error option \<times> 32 word) outcome option" where
  "GetInk inkMiner bc =
     (case GetInkTraversal inkMiner bc (minerKey inkMiner) of
        None \<Rightarrow> None
      | Some Crashes \<Rightarrow> Some Crashes
      | Some (Returns ink) \<Rightarrow> Some (Returns (None, word_of_int ink)))"

subsection \<open>\<open>GetShapes\<close>\<close>

text \<open>
  \<^verbatim>\<open>
  func (a *MArtNode) GetShapes(blockHash string, shapeHashes *[]string) error {
      if block, ok := blockChain.Blocks[blockHash]; ok {
          shapeHashes := make([]string, len(block.OpRecords))
          var i = 0
          for _, v := range block.OpRecords { shapeHashes[i] = v.Op; i++ }
          return nil
      }
      return errors.New(blockartlib.ErrorName[blockartlib.INVALIDBLOCKHASH])
  }
  \<close>
  The \<open>:=\<close> declares a new local slice that hides the parameter. The loop fills the
  local one, and the slice of the caller, the second component of the result, is what it
  was.
\<close>

definition GetShapes :: "BlockChain \<Rightarrow> string \<Rightarrow> string list \<Rightarrow> error option \<times> string list" where
  "GetShapes bc blockHash shapeHashes =
     (case map_of (Blocks bc) blockHash of
        Some block \<Rightarrow>
          (let shapeHashes_local = map (\<lambda>(h, v). Op v) (OpRecords block)
           in (None, shapeHashes))
      | None \<Rightarrow> (Some INVALIDBLOCKHASH, shapeHashes))"

subsection \<open>\<open>AddShape\<close>\<close>

record AddShapeRequest =
  ValidateNum :: "8 word"
  SvgString :: string
  Fill :: string
  Stroke :: string
  IsTransparent :: bool
  IsClosed :: bool

record NewShapeResponse =
  ShapeHash :: string
  BlockHash :: string
  InkRemaining :: "32 word"

text \<open>
  The loop over the pending pool:
  \<^verbatim>\<open>
  var pendingInkUsed int
  for _, pendingOp := range pendingOperations.all {
      if reflect.DeepEqual(pendingOp.AuthorPubKey, *a.inkMiner.pubKey) {
          if isOpDelete(pendingOp.Op) { pendingInkUsed -= int(pendingOp.InkUsed) }
          else                        { pendingInkUsed += int(pendingOp.InkUsed) }
      } else {
          svgPathString, _ := parsePath(pendingOp.Op)
          svgPathCoords, _ := util.ConvertPathToPoints(svgPathString)
          if util.CheckOverlap(requestedSVGPath, svgPathCoords) != nil {
              return errors.New(util.ShapeErrorName[util.SHAPEOVERLAP])
          }
      }
  }
  \<close>
\<close>

fun AddShape_pending ::
  "externals \<Rightarrow> PublicKey \<Rightarrow> points \<Rightarrow> (string \<times> OpRecord) list \<Rightarrow> int
     \<Rightarrow> (error + int) outcome" where
  "AddShape_pending ext pubKey requestedSVGPath [] pendingInkUsed = Returns (Inr pendingInkUsed)"
| "AddShape_pending ext pubKey requestedSVGPath ((h, pendingOp) # ps) pendingInkUsed =
     (if reflect_DeepEqual (KeyValue (AuthorPubKey pendingOp)) (KeyValue pubKey) then
        (if isOpDelete (Op pendingOp)
         then AddShape_pending ext pubKey requestedSVGPath ps
                (pendingInkUsed - uint (InkUsed pendingOp))
         else AddShape_pending ext pubKey requestedSVGPath ps
                (pendingInkUsed + uint (InkUsed pendingOp)))
      else
        (case parsePath (Op pendingOp) of
           Crashes \<Rightarrow> Crashes
         | Returns (svgPathString, fill) \<Rightarrow>
             if CheckOverlap ext requestedSVGPath (ConvertPathToPoints ext svgPathString)
             then Returns (Inl SHAPEOVERLAP)
             else AddShape_pending ext pubKey requestedSVGPath ps pendingInkUsed))"

text \<open>
  \<open>AddShape\<close> reads the globals \<open>g\<close> for its checks, signs (\<open>sig\<close> is the
  signature obtained), puts the operation into the pending pool, waits for its
  confirmation (\<open>later\<close> are the globals at the polls) and reads the balance again
  (from \<open>final\<close>). The result is the error, the response, the pending pool as the call
  left it and the messages sent. \<open>uint32(inkRemaining)\<close> keeps the low 32 bits.
\<close>

definition AddShape ::
  "externals \<Rightarrow> InkMiner \<Rightarrow> globals \<Rightarrow> AddShapeRequest \<Rightarrow> int \<times> int \<Rightarrow> NewShapeResponse
     \<Rightarrow> globals list \<Rightarrow> globals
     \<Rightarrow> (error option \<times> NewShapeResponse \<times> (string \<times> OpRecord) list \<times> message list) outcome option" where
  "AddShape ext inkMiner g shapeRequest sig newShapeResp later final =
     (case GetInkTraversal inkMiner (blockChain g) (minerKey inkMiner) of
        None \<Rightarrow> None
      | Some Crashes \<Rightarrow> Some Crashes
      | Some (Returns inkRemaining) \<Rightarrow>
     if inkRemaining \<le> 0
     then Some (Returns (Some INSUFFICIENTINK, newShapeResp, pendingOperations g, []))
     else
     let requestedSVGPath = ConvertPathToPoints ext (SvgString shapeRequest);
         isTransparent = IsTransparent shapeRequest;
         isClosed = IsClosed shapeRequest;
         canvas = canvasSettings (settings inkMiner)
     in
     if CheckOutOfBounds ext requestedSVGPath (CanvasXMax canvas) (CanvasYMax canvas)
     then Some (Returns (Some OUTOFBOUNDS, newShapeResp, pendingOperations g, []))
     else
     (case GetShapeTraversal inkMiner (blockChain g) (minerKey inkMiner) of
        None \<Rightarrow> None
      | Some Crashes \<Rightarrow> Some Crashes
      | Some (Returns currentSVGStringsOnCanvas) \<Rightarrow>
     if list_ex (\<lambda>svgPathString.
          CheckOverlap ext (ConvertPathToPoints ext svgPathString) requestedSVGPath)
          currentSVGStringsOnCanvas
     then Some (Returns (Some SHAPEOVERLAP, newShapeResp, pendingOperations g, []))
     else
     let inkRequired = CalculateInkRequired ext requestedSVGPath isTransparent isClosed in
     if inkRequired > word_of_int inkRemaining
     then Some (Returns (Some INSUFFICIENTINK, newShapeResp, pendingOperations g, []))
     else
     (case AddShape_pending ext (minerKey inkMiner) requestedSVGPath (pendingOperations g) 0 of
        Crashes \<Rightarrow> Some Crashes
      | Returns (Inl e) \<Rightarrow> Some (Returns (Some e, newShapeResp, pendingOperations g, []))
      | Returns (Inr pendingInkUsed) \<Rightarrow>
     if pendingInkUsed + uint inkRequired > inkRemaining
     then Some (Returns (Some INSUFFICIENTINK, newShapeResp, pendingOperations g, []))
     else
     let shapeSvgPathString =
           ConvertToSvgPathString ext (SvgString shapeRequest) (Stroke shapeRequest)
             (Fill shapeRequest);
         opRecord = \<lparr>Op = shapeSvgPathString, InkUsed = inkRequired, OpSigR = fst sig,
                      OpSigS = snd sig, AuthorPubKey = minerKey inkMiner\<rparr>;
         opRecordHash = ComputeOpRecordHash ext opRecord;
         sent = broadcastNewOperation (pendingOperations g) opRecord opRecordHash;
         pending = fst (snd sent);
         messages = snd (snd sent)
     in
     (case IsValidatedByValidateNum ext later opRecordHash (ValidateNum shapeRequest)
             (GenesisBlockHash (settings inkMiner)) (minerKey inkMiner) of
        None \<Rightarrow> None
      | Some Crashes \<Rightarrow> Some Crashes
      | Some (Returns (blockHash, validated)) \<Rightarrow>
     if validated then
       (case GetInkTraversal inkMiner (blockChain final) (minerKey inkMiner) of
          None \<Rightarrow> None
        | Some Crashes \<Rightarrow> Some Crashes
        | Some (Returns inkRemaining2) \<Rightarrow>
            if inkRemaining2 < 0
            then Some (Returns
              (Some (MISC ''AddShape: Shouldn't have negative ink after successful implementation of block''),
               newShapeResp\<lparr>ShapeHash := opRecordHash, BlockHash := blockHash\<rparr>,
               pending, messages))
            else Some (Returns
              (None,
               \<lparr>ShapeHash = opRecordHash, BlockHash = blockHash,
                InkRemaining = word_of_int inkRemaining2\<rparr>,
               pending, messages)))
     else Some (Returns (Some (MISC ''AddShape was unsuccessful''), newShapeResp, pending,
                         messages))))))"

subsection \<open>\<open>DeleteShape\<close>\<close>

record DeleteShapeReq =
  DelValidateNum :: "8 word"
  DelShapeHash :: string

text \<open>
  The fields \<open>ValidateNum\<close> and \<open>ShapeHash\<close> of \<open>DeleteShapeReq\<close> carry the
  prefix \<open>Del\<close>, the names being taken by the records above.
  \<^verbatim>\<open>
  func concatStrings(strArray []string) string {
      var buf bytes.Buffer
      for i := 0; i < len(strArray); i++ { buf.WriteString(strArray[i]) }
      return buf.String()
  }
  \<close>
\<close>

definition concatStrings :: "string list \<Rightarrow> string" where
  "concatStrings strArray = concat strArray"

text \<open>
  The result of \<open>DeleteShape\<close> is the error, the value of \<open>*inkRemaining\<close>, the
  pending pool as the call left it and the messages sent.
\<close>

definition DeleteShape ::
  "externals \<Rightarrow> InkMiner \<Rightarrow> globals \<Rightarrow> DeleteShapeReq \<Rightarrow> int \<times> int \<Rightarrow> 32 word
     \<Rightarrow> globals list \<Rightarrow> globals
     \<Rightarrow> (error option \<times> 32 word \<times> (string \<times> OpRecord) list \<times> message list) outcome option" where
  "DeleteShape ext inkMiner g deleteShapeReq sig inkRemaining later final =
     (case GetOpRecordTraversal (blockChain g) (DelShapeHash deleteShapeReq)
             (GenesisBlockHash (settings inkMiner)) of
        None \<Rightarrow> None
      | Some Crashes \<Rightarrow> Some Crashes
      | Some (Returns None) \<Rightarrow>
          Some (Returns (Some SHAPEOWNER, inkRemaining, pendingOperations g, []))
      | Some (Returns (Some (opRecord, blockHashOfOp))) \<Rightarrow>
     if VerifyOpRecordAuthor ext (minerKey inkMiner) opRecord then
       let newOp = concatStrings [''delete '', Op opRecord];
           inkRefunded = InkUsed opRecord;
           newOpRecord = \<lparr>Op = newOp, InkUsed = inkRefunded, OpSigR = fst sig,
                           OpSigS = snd sig, AuthorPubKey = minerKey inkMiner\<rparr>;
           opRecordHash = ComputeOpRecordHash ext newOpRecord;
           sent = broadcastNewOperation (pendingOperations g) newOpRecord opRecordHash;
           pending = fst (snd sent);
           messages = snd (snd sent)
       in
       (case IsValidatedByValidateNum ext later opRecordHash (DelValidateNum deleteShapeReq)
               (GenesisBlockHash (settings inkMiner)) (minerKey inkMiner) of
          None \<Rightarrow> None
        | Some Crashes \<Rightarrow> Some Crashes
        | Some (Returns (blockHash, validated)) \<Rightarrow>
       if validated then
         (case GetInkTraversal inkMiner (blockChain final) (minerKey inkMiner) of
            None \<Rightarrow> None
          | Some Crashes \<Rightarrow> Some Crashes
          | Some (Returns newInkRemaining) \<Rightarrow>
              if newInkRemaining < 0
              then Some (Returns
                (Some (MISC ''DeleteShape: Shouldn't have negative ink after successful implementation of block''),
                 inkRemaining, pending, messages))
              else Some (Returns (None, word_of_int newInkRemaining, pending, messages)))
       else Some (Returns (Some (MISC ''Delete Shape was unsuccessful''), inkRemaining, pending,
                           messages)))
     else Some (Returns (Some SHAPEOWNER, inkRemaining, pendingOperations g, [])))"

section \<open>Mining\<close>

text \<open>
  \<^verbatim>\<open>
  var nonce uint32 = FirstNonce
  for {
      var numZeros uint8
      if len(pendingOperations.all) == 0 { numZeros = m.settings.PoWDifficultyNoOpBlock }
      else                               { numZeros = m.settings.PoWDifficultyOpBlock }
      var nextBlockNum uint32
      if len(blockChain.Blocks) == 0 { nextBlockNum = FirstBlockNum }
      else { nextBlockNum = blockChain.Blocks[blockChain.NewestHash].BlockNum + 1 }
      var incorporatedOps = make(map[string]*blockchain.OpRecord)
      for k, v := range pendingOperations.all { incorporatedOps[k] = v }
      block := &blockchain.Block{BlockNum: nextBlockNum, PrevHash: blockChain.NewestHash,
          OpRecords: incorporatedOps, MinerPubKey: m.pubKey, Nonce: nonce}
      hash := ComputeBlockHash(*block)
      if verifyTrailingZeros(hash, numZeros) { return block }
      nonce = nonce + 1
  }
  \<close>
  The nonce wraps around; the search need not end.
\<close>

definition FirstNonce :: "32 word" where
  "FirstNonce = 0"

definition FirstBlockNum :: "32 word" where
  "FirstBlockNum = 1"

partial_function (option) computeBlock_loop ::
  "externals \<Rightarrow> InkMiner \<Rightarrow> globals \<Rightarrow> 32 word \<Rightarrow> Block outcome option" where
  "computeBlock_loop ext m g nonce =
     (case (if Blocks (blockChain g) = [] then Some FirstBlockNum
            else map_option (\<lambda>newest. BlockNum newest + 1)
                   (map_of (Blocks (blockChain g)) (NewestHash (blockChain g)))) of
        None \<Rightarrow> Some Crashes
      | Some nextBlockNum \<Rightarrow>
          (case verifyTrailingZeros
                  (ComputeBlockHash ext
                     \<lparr>BlockNum = nextBlockNum, PrevHash = NewestHash (blockChain g),
                      OpRecords = pendingOperations g, MinerPubKey = Some (minerKey m),
                      Nonce = nonce\<rparr>)
                  (if pendingOperations g = [] then PoWDifficultyNoOpBlock (settings m)
                   else PoWDifficultyOpBlock (settings m)) of
             Crashes \<Rightarrow> Some Crashes
           | Returns ok \<Rightarrow>
               if ok then
                 Some (Returns
                   \<lparr>BlockNum = nextBlockNum, PrevHash = NewestHash (blockChain g),
                    OpRecords = pendingOperations g, MinerPubKey = Some (minerKey m),
                    Nonce = nonce\<rparr>)
               else computeBlock_loop ext m g (nonce + 1)))"

definition computeBlock :: "externals \<Rightarrow> InkMiner \<Rightarrow> globals \<Rightarrow> Block outcome option" where
  "computeBlock ext m g = computeBlock_loop ext m g FirstNonce"

text \<open>
  \<^verbatim>\<open>
  func removeOperationsFromPendingOperations(opRecords map[string]*blockchain.OpRecord) {
      for opHash := range opRecords { delete(pendingOperations.all, opHash) }
  }
  \<close>
\<close>

definition removeOperationsFromPendingOperations ::
  "(string \<times> OpRecord) list \<Rightarrow> (string \<times> OpRecord) list \<Rightarrow> (string \<times> OpRecord) list" where
  "removeOperationsFromPendingOperations opRecords pending =
     filter (\<lambda>(opHash, pendingOp). map_of opRecords opHash = None) pending"

text \<open>
  One round of \<open>startMiningBlocks\<close>: the mined block goes into the store and becomes
  the tip, \<open>broadcastNewBlock\<close> takes its operations out of the pending pool and sends
  it.
\<close>

definition startMiningBlocks_round ::
  "externals \<Rightarrow> InkMiner \<Rightarrow> globals \<Rightarrow> (globals \<times> message list) outcome option" where
  "startMiningBlocks_round ext m g =
     (case computeBlock ext m g of
        None \<Rightarrow> None
      | Some Crashes \<Rightarrow> Some Crashes
      | Some (Returns block) \<Rightarrow>
          Some (Returns
            (\<lparr>blockChain =
                \<lparr>Blocks = AList.update (ComputeBlockHash ext block) block (Blocks (blockChain g)),
                 NewestHash = ComputeBlockHash ext block\<rparr>,
              pendingOperations =
                removeOperationsFromPendingOperations (OpRecords block) (pendingOperations g)\<rparr>,
             [SendBlock block])))"

section \<open>Validation of a received block\<close>

text \<open>
  \<open>isValidOperation\<close> checks one operation against the current tip. It reads the
  last character of the path, which panics on an empty path.
\<close>

definition isValidOperation :: "externals \<Rightarrow> InkMiner \<Rightarrow> BlockChain \<Rightarrow> OpRecord \<Rightarrow> bool outcome option" where
  "isValidOperation ext inkMiner bc op =
     (case GetInkTraversal inkMiner bc (AuthorPubKey op) of
        None \<Rightarrow> None
      | Some Crashes \<Rightarrow> Some Crashes
      | Some (Returns inkRemaining) \<Rightarrow>
     if inkRemaining \<le> 0 then Some (Returns False)
     else
     (case parsePath (Op op) of
        Crashes \<Rightarrow> Some Crashes
      | Returns (svgPathString, transparency) \<Rightarrow>
     if svgPathString = [] then Some Crashes
     else
     let requestedSVGPath = ConvertPathToPoints ext svgPathString;
         isTransparent = (transparency = ''transparent'');
         isClosed = (last svgPathString = CHR ''Z'' \<or> last svgPathString = CHR ''z'');
         canvas = canvasSettings (settings inkMiner)
     in
     if CheckOutOfBounds ext requestedSVGPath (CanvasXMax canvas) (CanvasYMax canvas)
     then Some (Returns False)
     else
     (case GetShapeTraversal inkMiner bc (AuthorPubKey op) of
        None \<Rightarrow> None
      | Some Crashes \<Rightarrow> Some Crashes
      | Some (Returns currentSVGStringsOnCanvas) \<Rightarrow>
     if list_ex (\<lambda>svgPathString.
          CheckOverlap ext (ConvertPathToPoints ext svgPathString) requestedSVGPath)
          currentSVGStringsOnCanvas
     then Some (Returns False)
     else if CalculateInkRequired ext requestedSVGPath isTransparent isClosed
               > word_of_int inkRemaining
     then Some (Returns False)
     else Some (Returns True))))"

fun hasValidOperations ::
  "externals \<Rightarrow> InkMiner \<Rightarrow> BlockChain \<Rightarrow> (string \<times> OpRecord) list \<Rightarrow> bool outcome option" where
  "hasValidOperations ext inkMiner bc [] = Some (Returns True)"
| "hasValidOperations ext inkMiner bc ((h, op) # ops) =
     (case isValidOperation ext inkMiner bc op of
        None \<Rightarrow> None
      | Some Crashes \<Rightarrow> Some Crashes
      | Some (Returns ok) \<Rightarrow>
          if \<not> ok then Some (Returns False) else hasValidOperations ext inkMiner bc ops)"

text \<open>
  \<^verbatim>\<open>
  func GetAllOperationsFromBlockChain(bc blockchain.BlockChain, genesisBlockHash string) map[string]*blockchain.OpRecord {
      allOps := make(map[string]*blockchain.OpRecord)
      for blockHash := bc.NewestHash; blockHash != genesisBlockHash; blockHash = bc.Blocks[blockHash].PrevHash {
          blockOpRecords := bc.Blocks[blockHash].OpRecords
          if len(blockOpRecords) != 0 {
              for opHash, op := range blockOpRecords { allOps[opHash] = op }
          }
      }
      return allOps
  }
  \<close>
\<close>

partial_function (option) GetAllOperationsFromBlockChain_loop ::
  "BlockChain \<Rightarrow> string \<Rightarrow> string \<Rightarrow> (string \<times> OpRecord) list
     \<Rightarrow> (string \<times> OpRecord) list outcome option" where
  "GetAllOperationsFromBlockChain_loop bc genesisBlockHash blockHash allOps =
     (if blockHash = genesisBlockHash then Some (Returns allOps)
      else case map_of (Blocks bc) blockHash of
        None \<Rightarrow> Some Crashes
      | Some block \<Rightarrow>
          GetAllOperationsFromBlockChain_loop bc genesisBlockHash (PrevHash block)
            (fold (\<lambda>(opHash, op) acc. AList.update opHash op acc) (OpRecords block) allOps))"

definition GetAllOperationsFromBlockChain ::
  "BlockChain \<Rightarrow> string \<Rightarrow> (string \<times> OpRecord) list outcome option" where
  "GetAllOperationsFromBlockChain bc genesisBlockHash =
     GetAllOperationsFromBlockChain_loop bc genesisBlockHash (NewestHash bc) []"

text \<open>
  \<open>updateBlockChain\<close> asks the neighbours for their chains and elects one
  (\<open>getMajorityBlockChainFromNeighbours\<close>); the elected chain is the argument
  \<open>majorityBlockChain\<close>. When its hash differs from the hash of the local chain it
  replaces the local chain as it is, and its operations leave the pending pool.
\<close>

definition computeBlockChainHash :: "externals \<Rightarrow> BlockChain \<Rightarrow> string" where
  "computeBlockChainHash ext bc = hex_EncodeToString (md5_json_BlockChain ext bc)"

definition updateBlockChain ::
  "externals \<Rightarrow> InkMiner \<Rightarrow> BlockChain \<Rightarrow> globals \<Rightarrow> globals outcome option" where
  "updateBlockChain ext inkMiner majorityBlockChain g =
     (if computeBlockChainHash ext majorityBlockChain \<noteq> computeBlockChainHash ext (blockChain g)
      then
        (case GetAllOperationsFromBlockChain majorityBlockChain
                (GenesisBlockHash (settings inkMiner)) of
           None \<Rightarrow> None
         | Some Crashes \<Rightarrow> Some Crashes
         | Some (Returns allOps) \<Rightarrow>
             Some (Returns
               \<lparr>blockChain = majorityBlockChain,
                pendingOperations =
                  removeOperationsFromPendingOperations allOps (pendingOperations g)\<rparr>))
      else Some (Returns g))"

text \<open>
  \<open>isValidBlock\<close>: not yet stored, the previous block stored (after one
  \<open>updateBlockChain\<close> when it is missing), the next block number, the proof of work
  for the difficulty of the block, and valid operations. The result is the verdict and
  the globals, which \<open>updateBlockChain\<close> may have replaced.
\<close>

definition isValidBlock ::
  "externals \<Rightarrow> InkMiner \<Rightarrow> BlockChain \<Rightarrow> globals \<Rightarrow> Block \<Rightarrow> (bool \<times> globals) outcome option" where
  "isValidBlock ext inkMiner majorityBlockChain g block =
     (let hash = ComputeBlockHash ext block in
      if map_of (Blocks (blockChain g)) hash \<noteq> None then Some (Returns (False, g))
      else
      (case (if map_of (Blocks (blockChain g)) (PrevHash block) = None
             then updateBlockChain ext inkMiner majorityBlockChain g
             else Some (Returns g)) of
         None \<Rightarrow> None
       | Some Crashes \<Rightarrow> Some Crashes
       | Some (Returns g2) \<Rightarrow>
      (case map_of (Blocks (blockChain g2)) (PrevHash block) of
         None \<Rightarrow> Some (Returns (False, g2))
       | Some prevBlock \<Rightarrow>
      if BlockNum block \<noteq> BlockNum prevBlock + 1 then Some (Returns (False, g2))
      else
      (case verifyTrailingZeros hash
              (if OpRecords block = [] then PoWDifficultyNoOpBlock (settings inkMiner)
               else PoWDifficultyOpBlock (settings inkMiner)) of
         Crashes \<Rightarrow> Some Crashes
       | Returns hasValidPoW \<Rightarrow>
      if \<not> hasValidPoW then Some (Returns (False, g2))
      else
      (case hasValidOperations ext inkMiner (blockChain g2) (OpRecords block) of
         None \<Rightarrow> None
       | Some Crashes \<Rightarrow> Some Crashes
       | Some (Returns ok) \<Rightarrow> Some (Returns (ok, g2)))))))"

text \<open>
  \<^verbatim>\<open>
  func saveBlockToBlockChain(block blockchain.Block) {
      blockHash := ComputeBlockHash(block)
      blockChain.Blocks[blockHash] = &block
      if block.BlockNum > blockChain.Blocks[blockChain.NewestHash].BlockNum {
          blockChain.NewestHash = blockHash
      }
      removeOperationsFromPendingOperations(block.OpRecords)
  }
  \<close>
\<close>

definition saveBlockToBlockChain :: "externals \<Rightarrow> globals \<Rightarrow> Block \<Rightarrow> globals outcome" where
  "saveBlockToBlockChain ext g block =
     (let blockHash = ComputeBlockHash ext block;
          blocks = AList.update blockHash block (Blocks (blockChain g))
      in case map_of blocks (NewestHash (blockChain g)) of
           None \<Rightarrow> Crashes
         | Some newest \<Rightarrow>
             Returns
               \<lparr>blockChain =
                  \<lparr>Blocks = blocks,
                   NewestHash = (if BlockNum block > BlockNum newest then blockHash
                                 else NewestHash (blockChain g))\<rparr>,
                pendingOperations =
                  removeOperationsFromPendingOperations (OpRecords block) (pendingOperations g)\<rparr>)"

text \<open>
  \<^verbatim>\<open>
  maxBlockNum := uint32(0)
  var newestHash string
  for hash, block := range blockChain.Blocks {
      if block.BlockNum > maxBlockNum { maxBlockNum = block.BlockNum; newestHash = hash }
  }
  blockChain.NewestHash = newestHash
  \<close>
\<close>

fun switchToLongestBranch_loop :: "(string \<times> Block) list \<Rightarrow> 32 word \<Rightarrow> string \<Rightarrow> string" where
  "switchToLongestBranch_loop [] maxBlockNum newestHash = newestHash"
| "switchToLongestBranch_loop ((hash, block) # bs) maxBlockNum newestHash =
     (if BlockNum block > maxBlockNum
      then switchToLongestBranch_loop bs (BlockNum block) hash
      else switchToLongestBranch_loop bs maxBlockNum newestHash)"

definition switchToLongestBranch :: "BlockChain \<Rightarrow> BlockChain" where
  "switchToLongestBranch bc = bc\<lparr>NewestHash := switchToLongestBranch_loop (Blocks bc) 0 []\<rparr>"

text \<open>
  \<^verbatim>\<open>
  func (s *MServer) DisseminateBlock(block blockchain.Block, _ignore *bool) error {
      if s.isValidBlock(block) {
          saveBlockToBlockChain(block)
          sendToAllConnectedMiners("MServer.DisseminateBlock", block, nil)
          switchToLongestBranch()
      } else {
          errLog.Printf("Rejecting invalid block.")
      }
      return nil
  }
  \<close>
\<close>

definition DisseminateBlock ::
  "externals \<Rightarrow> InkMiner \<Rightarrow> BlockChain \<Rightarrow> globals \<Rightarrow> Block
     \<Rightarrow> (error option \<times> globals \<times> message list) outcome option" where
  "DisseminateBlock ext inkMiner majorityBlockChain g block =
     (case isValidBlock ext inkMiner majorityBlockChain g block of
        None \<Rightarrow> None
      | Some Crashes \<Rightarrow> Some Crashes
      | Some (Returns (valid, g2)) \<Rightarrow>
          if valid then
            (case saveBlockToBlockChain ext g2 block of
               Crashes \<Rightarrow> Some Crashes
             | Returns g3 \<Rightarrow>
                 Some (Returns
                   (None, g3\<lparr>blockChain := switchToLongestBranch (blockChain g3)\<rparr>,
                    [SendBlock block])))
          else Some (Returns (None, g2, [])))"

section \<open>Notions of the specification\<close>

text \<open>
  The ancestry of a hash: the blocks met on the way to genesis, the tip first. The
  genesis block itself is not stored.
\<close>

fun ancestry :: "BlockChain \<Rightarrow> string \<Rightarrow> string \<Rightarrow> Block list \<Rightarrow> bool" where
  "ancestry bc genesis blockHash [] = (blockHash = genesis)"
| "ancestry bc genesis blockHash (b # bs) =
     (blockHash \<noteq> genesis \<and> map_of (Blocks bc) blockHash = Some b
      \<and> ancestry bc genesis (PrevHash b) bs)"

text \<open>
  The same walk up to any hash: the blocks met from \<open>blockHash\<close> before the block
  called \<open>target\<close> is reached.
\<close>

fun walk :: "BlockChain \<Rightarrow> string \<Rightarrow> string \<Rightarrow> Block list \<Rightarrow> string \<Rightarrow> bool" where
  "walk bc genesis blockHash [] target = (blockHash = target)"
| "walk bc genesis blockHash (b # bs) target =
     (blockHash \<noteq> genesis \<and> map_of (Blocks bc) blockHash = Some b
      \<and> walk bc genesis (PrevHash b) bs target)"

text \<open>
  An op-hash resolves in the ancestry of the tip: walking from the tip past the blocks
  \<open>bs\<close>, none of which holds it, the block \<open>blockHash\<close> holds it as
  \<open>opRecord\<close>. It is absent when the walk reaches genesis and no block holds it.
\<close>

definition found_at ::
  "BlockChain \<Rightarrow> string \<Rightarrow> string \<Rightarrow> Block list \<Rightarrow> string \<Rightarrow> OpRecord \<Rightarrow> bool" where
  "found_at bc genesis opHash bs blockHash opRecord =
     (walk bc genesis (NewestHash bc) bs blockHash \<and> blockHash \<noteq> genesis
      \<and> list_all (\<lambda>b. map_of (OpRecords b) opHash = None) bs
      \<and> (case map_of (Blocks bc) blockHash of
            None \<Rightarrow> False
          | Some b \<Rightarrow> map_of (OpRecords b) opHash = Some opRecord))"

definition absent_from ::
  "BlockChain \<Rightarrow> string \<Rightarrow> string \<Rightarrow> Block list \<Rightarrow> bool" where
  "absent_from bc genesis opHash bs =
     (ancestry bc genesis (NewestHash bc) bs
      \<and> list_all (\<lambda>b. map_of (OpRecords b) opHash = None) bs)"

text \<open>
  The ink balance as the specification words it: the reward of every block that the key
  mined, minus the ink of the key's creates, plus the ink of its deletes.
\<close>

definition op_ink_spec :: "PublicKey \<Rightarrow> OpRecord \<Rightarrow> int" where
  "op_ink_spec k opr =
     (if AuthorPubKey opr = k
      then (if isOpDelete (Op opr) then uint (InkUsed opr) else - uint (InkUsed opr))
      else 0)"

definition block_ink_spec :: "InkMiner \<Rightarrow> PublicKey \<Rightarrow> Block \<Rightarrow> int" where
  "block_ink_spec m k b =
     (if MinerPubKey b = Some k
      then (if OpRecords b = [] then uint (InkPerNoOpBlock (settings m))
            else uint (InkPerOpBlock (settings m)))
      else 0)
     + (\<Sum>(h, opr) \<leftarrow> OpRecords b. op_ink_spec k opr)"

definition ink_balance_spec :: "InkMiner \<Rightarrow> PublicKey \<Rightarrow> Block list \<Rightarrow> int" where
  "ink_balance_spec m k bs = (\<Sum>b \<leftarrow> bs. block_ink_spec m k b)"

text \<open>
  The canvas as the specification words it. The operations of the ancestry are taken
  oldest first; a create of another author is visible unless a later delete names it.
\<close>

fun live_creates_spec :: "PublicKey \<Rightarrow> OpRecord list \<Rightarrow> OpRecord list" where
  "live_creates_spec k [] = []"
| "live_creates_spec k (opr # later) =
     (if \<not> isOpDelete (Op opr) \<and> AuthorPubKey opr \<noteq> k
         \<and> \<not> list_ex (\<lambda>d. Op d = ''delete '' @ Op opr) later
      then opr # live_creates_spec k later
      else live_creates_spec k later)"

definition canvas_shapes_spec :: "PublicKey \<Rightarrow> Block list \<Rightarrow> OpRecord list" where
  "canvas_shapes_spec k bs =
     live_creates_spec k (concat (map (\<lambda>b. map snd (OpRecords b)) (rev bs)))"

text \<open>
  The difficulty of a block, the property (I1) of its hash, and the net ink of a key's
  pending operations (creates count positive, deletes negative).
\<close>

definition difficulty :: "InkMiner \<Rightarrow> Block \<Rightarrow> 8 word" where
  "difficulty m block =
     (if OpRecords block = [] then PoWDifficultyNoOpBlock (settings m)
      else PoWDifficultyOpBlock (settings m))"

definition has_proof_of_work :: "externals \<Rightarrow> InkMiner \<Rightarrow> Block \<Rightarrow> bool" where
  "has_proof_of_work ext m block =
     (let hash = ComputeBlockHash ext block; d = unat (difficulty m block)
      in length hash = 32 \<and> list_all (\<lambda>c. c \<in> set ''0123456789abcdef'') hash
         \<and> d \<le> 32 \<and> list_all (\<lambda>c. c = CHR ''0'') (drop (32 - d) hash))"

definition pending_net :: "PublicKey \<Rightarrow> (string \<times> OpRecord) list \<Rightarrow> int" where
  "pending_net k pending = (\<Sum>(h, opr) \<leftarrow> pending. - op_ink_spec k opr)"

text \<open>
  The requested path crosses no pending operation of another author (and
  \<open>parsePath\<close> reads every such operation).
\<close>

definition clear_of_pending ::
  "externals \<Rightarrow> PublicKey \<Rightarrow> points \<Rightarrow> (string \<times> OpRecord) list \<Rightarrow> bool" where
  "clear_of_pending ext k path pending =
     list_all
       (\<lambda>(h, opr). AuthorPubKey opr = k
          \<or> (case parsePath (Op opr) of
                Crashes \<Rightarrow> False
              | Returns (d, fill) \<Rightarrow> \<not> CheckOverlap ext path (ConvertPathToPoints ext d)))
       pending"

section \<open>Test data\<close>

text \<open>
  Stand-ins for the libraries, for running the model on concrete inputs: digests that
  are cheap to compute, a signature scheme in which the valid signature of a key is its
  pair of coordinates, a geometry in which nothing is out of bounds, nothing overlaps
  and every shape costs 30 ink, and the path element that \<open>parsePath\<close> reads.
\<close>

definition toy_externals :: externals where
  "toy_externals =
     \<lparr>md5_json_Block =
        (\<lambda>b. 16777216 * (case MinerPubKey b of None \<Rightarrow> 0 | Some k \<Rightarrow> word_of_int (KeyX k))
              + ucast (BlockNum b) * 4096
              + (if Nonce b = 2 then 0 else 1 + ucast (Nonce b))),
      md5_json_OpRecord =
        (\<lambda>opr. of_nat (sum_list (map of_char (Op opr))) + 65536 * ucast (InkUsed opr)
                + 4294967296 * word_of_int (OpSigR opr)),
      md5_json_BlockChain = (\<lambda>bc. of_nat (length (Blocks bc))),
      ecdsa_Verify = (\<lambda>pk msg r s. r = KeyX pk \<and> s = KeyY pk),
      ConvertPathToPoints = (\<lambda>svg. []),
      CheckOutOfBounds = (\<lambda>path xMax yMax. False),
      CheckOverlap = (\<lambda>a b. False),
      CalculateInkRequired = (\<lambda>path transparent closed. 30),
      ConvertToSvgPathString =
        (\<lambda>d stroke fill.
           ''<path d=\"'' @ d @ ''\" stroke=\"'' @ stroke @ ''\" fill=\"'' @ fill @ ''\"/>'')\<rparr>"

text \<open>
  The mock chain of \<open>test/blockchain_traverse_test.go\<close>, mined by two miners:
  a NoOp block of miner one, a NoOp block of miner two, an Op block of miner one with a
  shape of each miner, and an Op block of miner two with a shape of miner two. Hashes
  are those of the stand-in digests.
\<close>

definition GENESIS_BLOCK_HASH :: string where
  "GENESIS_BLOCK_HASH = ''83218ac34c1834c26781fe4bde918ee4''"

definition SVG_OP_ONE :: string where
  "SVG_OP_ONE = ''<path d=\"M 0 0 L 20 20\" stroke=\"red\" fill=\"transparent\"/>''"

definition SVG_OP_TWO :: string where
  "SVG_OP_TWO = ''<path d=\"M 30 30 L 40 40\" stroke=\"red\" fill=\"transparent\"/>''"

definition SVG_OP_THREE :: string where
  "SVG_OP_THREE = ''<path d=\"M 50 50 L 60 60\" stroke=\"red\" fill=\"transparent\"/>''"

definition minerOnePublicKey :: PublicKey where
  "minerOnePublicKey = \<lparr>Curve = ''P-256'', KeyX = 11, KeyY = 12\<rparr>"

definition minerTwoPublicKey :: PublicKey where
  "minerTwoPublicKey = \<lparr>Curve = ''P-256'', KeyX = 21, KeyY = 22\<rparr>"

definition testSettings :: MinerNetSettings where
  "testSettings =
     \<lparr>GenesisBlockHash = GENESIS_BLOCK_HASH, InkPerOpBlock = 20, InkPerNoOpBlock = 10,
      PoWDifficultyOpBlock = 3, PoWDifficultyNoOpBlock = 2,
      canvasSettings = \<lparr>CanvasXMax = 200, CanvasYMax = 200\<rparr>\<rparr>"

definition minerOne :: InkMiner where
  "minerOne = \<lparr>minerKey = minerOnePublicKey, settings = testSettings\<rparr>"

definition minerTwo :: InkMiner where
  "minerTwo = \<lparr>minerKey = minerTwoPublicKey, settings = testSettings\<rparr>"

definition noOPBlockMinerOne :: Block where
  "noOPBlockMinerOne =
     \<lparr>BlockNum = 1, PrevHash = GENESIS_BLOCK_HASH, OpRecords = [],
      MinerPubKey = Some minerOnePublicKey, Nonce = 2\<rparr>"

definition blockOneHash :: string where
  "blockOneHash = ''0000000000000000000000000b001000''"

definition noOPBlockMinerTwo :: Block where
  "noOPBlockMinerTwo =
     \<lparr>BlockNum = 2, PrevHash = blockOneHash, OpRecords = [],
      MinerPubKey = Some minerTwoPublicKey, Nonce = 2\<rparr>"

definition blockTwoHash :: string where
  "blockTwoHash = ''00000000000000000000000015002000''"

definition minerOneOpRecordOne :: OpRecord where
  "minerOneOpRecordOne =
     \<lparr>Op = SVG_OP_ONE, InkUsed = 20, OpSigR = 11, OpSigS = 12,
      AuthorPubKey = minerOnePublicKey\<rparr>"

definition opRecOneHash :: string where
  "opRecOneHash = ''00000000000000000000000b00141126''"

definition minerOneOpRecordTwo :: OpRecord where
  "minerOneOpRecordTwo =
     \<lparr>Op = SVG_OP_TWO, InkUsed = 10, OpSigR = 21, OpSigS = 22,
      AuthorPubKey = minerTwoPublicKey\<rparr>"

definition opRecTwoHash :: string where
  "opRecTwoHash = ''000000000000000000000015000a1190''"

definition minerTwoOpRecord :: OpRecord where
  "minerTwoOpRecord =
     \<lparr>Op = SVG_OP_THREE, InkUsed = 10, OpSigR = 21, OpSigS = 22,
      AuthorPubKey = minerTwoPublicKey\<rparr>"

definition opRecThreeHash :: string where
  "opRecThreeHash = ''000000000000000000000015000a1198''"

definition opBlockMinerOne :: Block where
  "opBlockMinerOne =
     \<lparr>BlockNum = 3, PrevHash = blockTwoHash,
      OpRecords = [(opRecOneHash, minerOneOpRecordOne), (opRecTwoHash, minerOneOpRecordTwo)],
      MinerPubKey = Some minerOnePublicKey, Nonce = 2\<rparr>"

definition blockThreeHash :: string where
  "blockThreeHash = ''0000000000000000000000000b003000''"

definition opBlockMinerTwo :: Block where
  "opBlockMinerTwo =
     \<lparr>BlockNum = 4, PrevHash = blockThreeHash,
      OpRecords = [(opRecThreeHash, minerTwoOpRecord)],
      MinerPubKey = Some minerTwoPublicKey, Nonce = 2\<rparr>"

definition blockFourHash :: string where
  "blockFourHash = ''00000000000000000000000015004000''"

definition mockBlockChain :: BlockChain where
  "mockBlockChain =
     \<lparr>Blocks = [(blockOneHash, noOPBlockMinerOne), (blockTwoHash, noOPBlockMinerTwo),
                (blockThreeHash, opBlockMinerOne), (blockFourHash, opBlockMinerTwo)],
      NewestHash = blockFourHash\<rparr>"

text \<open>
  The mock chain with a fifth block, mined by miner one, in which miner two deletes the
  shape of block four.
\<close>

definition minerTwoDeleteRecord :: OpRecord where
  "minerTwoDeleteRecord =
     \<lparr>Op = ''delete '' @ SVG_OP_THREE, InkUsed = 10, OpSigR = 21, OpSigS = 22,
      AuthorPubKey = minerTwoPublicKey\<rparr>"

definition deleteThreeHash :: string where
  "deleteThreeHash = ''000000000000000000000015000a142b''"

definition deleteBlockMinerOne :: Block where
  "deleteBlockMinerOne =
     \<lparr>BlockNum = 5, PrevHash = blockFourHash,
      OpRecords = [(deleteThreeHash, minerTwoDeleteRecord)],
      MinerPubKey = Some minerOnePublicKey, Nonce = 2\<rparr>"

definition blockFiveHash :: string where
  "blockFiveHash = ''0000000000000000000000000b005000''"

definition mockBlockChainWithDelete :: BlockChain where
  "mockBlockChainWithDelete =
     \<lparr>Blocks = Blocks mockBlockChain @ [(blockFiveHash, deleteBlockMinerOne)],
      NewestHash = blockFiveHash\<rparr>"

text \<open>
  The mock chain with a fifth block, mined by miner two, in which miner one deletes its
  shape of block three.
\<close>

definition minerOneDeleteRecord :: OpRecord where
  "minerOneDeleteRecord =
     \<lparr>Op = ''delete '' @ SVG_OP_ONE, InkUsed = 20, OpSigR = 11, OpSigS = 12,
      AuthorPubKey = minerOnePublicKey\<rparr>"

definition deleteOneHash :: string where
  "deleteOneHash = ''00000000000000000000000b001413b9''"

definition deleteBlockMinerTwo :: Block where
  "deleteBlockMinerTwo =
     \<lparr>BlockNum = 5, PrevHash = blockFourHash,
      OpRecords = [(deleteOneHash, minerOneDeleteRecord)],
      MinerPubKey = Some minerTwoPublicKey, Nonce = 2\<rparr>"

definition blockFiveHashTwo :: string where
  "blockFiveHashTwo = ''00000000000000000000000015005000''"

definition mockBlockChainDeleteOne :: BlockChain where
  "mockBlockChainDeleteOne =
     \<lparr>Blocks = Blocks mockBlockChain @ [(blockFiveHashTwo, deleteBlockMinerTwo)],
      NewestHash = blockFiveHashTwo\<rparr>"

text \<open>
  A store with no block, and a chain of two blocks whose second block holds an operation
  that names miner one as its author, costs more than miner one has, and carries a
  signature that is not miner one's.
\<close>

definition emptyBlockChain :: BlockChain where
  "emptyBlockChain = \<lparr>Blocks = [], NewestHash = GENESIS_BLOCK_HASH\<rparr>"

definition forgedOpRecord :: OpRecord where
  "forgedOpRecord =
     \<lparr>Op = SVG_OP_ONE, InkUsed = 20, OpSigR = 0, OpSigS = 0,
      AuthorPubKey = minerOnePublicKey\<rparr>"

definition forgedOpHash :: string where
  "forgedOpHash = ''00000000000000000000000000141126''"

definition forgedBlock :: Block where
  "forgedBlock =
     \<lparr>BlockNum = 2, PrevHash = blockOneHash, OpRecords = [(forgedOpHash, forgedOpRecord)],
      MinerPubKey = Some minerTwoPublicKey, Nonce = 2\<rparr>"

definition forgedBlockChain :: BlockChain where
  "forgedBlockChain =
     \<lparr>Blocks = [(blockOneHash, noOPBlockMinerOne), (blockTwoHash, forgedBlock)],
      NewestHash = blockTwoHash\<rparr>"

text \<open>
  Globals of a miner that waits for the confirmation of miner one's shape: the shape is
  pending and nothing is mined; the mock chain has arrived and the pool is empty; or the
  pool is empty and the chain does not hold the shape.
\<close>

definition waitingGlobals :: globals where
  "waitingGlobals =
     \<lparr>blockChain = emptyBlockChain,
      pendingOperations = [(opRecOneHash, minerOneOpRecordOne)]\<rparr>"

definition confirmedGlobals :: globals where
  "confirmedGlobals = \<lparr>blockChain = mockBlockChain, pendingOperations = []\<rparr>"

definition orphanedGlobals :: globals where
  "orphanedGlobals = \<lparr>blockChain = emptyBlockChain, pendingOperations = []\<rparr>"

text \<open>
  Globals with the chain that holds the forged operation, and with the chain in which
  miner one's delete is mined.
\<close>

definition forgedGlobals :: globals where
  "forgedGlobals = \<lparr>blockChain = forgedBlockChain, pendingOperations = []\<rparr>"

definition deletedGlobals :: globals where
  "deletedGlobals = \<lparr>blockChain = mockBlockChainDeleteOne, pendingOperations = []\<rparr>"

text \<open>
  The request of a green line (30 ink); globals in which miner one's delete of its first
  shape is pending on the mock chain; and the chain with the deleting fifth block, on
  which miner one draws the line, before and after a sixth block confirms it.
\<close>

definition greenLineRequest :: AddShapeRequest where
  "greenLineRequest =
     \<lparr>ValidateNum = 0, SvgString = ''M 130 20 L 160 20'', Fill = ''transparent'',
      Stroke = ''green'', IsTransparent = True, IsClosed = False\<rparr>"

definition emptyResponse :: NewShapeResponse where
  "emptyResponse = \<lparr>ShapeHash = [], BlockHash = [], InkRemaining = 0\<rparr>"

definition refundPendingGlobals :: globals where
  "refundPendingGlobals =
     \<lparr>blockChain = mockBlockChain,
      pendingOperations = [(deleteOneHash, minerOneDeleteRecord)]\<rparr>"

definition greenLineRecord :: OpRecord where
  "greenLineRecord =
     \<lparr>Op = ''<path d=\"M 130 20 L 160 20\" stroke=\"green\" fill=\"transparent\"/>'',
      InkUsed = 30, OpSigR = 11, OpSigS = 12, AuthorPubKey = minerOnePublicKey\<rparr>"

definition greenLineHash :: string where
  "greenLineHash = ''00000000000000000000000b001e12c7''"

definition greenLineBlock :: Block where
  "greenLineBlock =
     \<lparr>BlockNum = 6, PrevHash = blockFiveHash, OpRecords = [(greenLineHash, greenLineRecord)],
      MinerPubKey = Some minerTwoPublicKey, Nonce = 2\<rparr>"

definition blockSixHash :: string where
  "blockSixHash = ''00000000000000000000000015006000''"

definition beforeGreenLineGlobals :: globals where
  "beforeGreenLineGlobals =
     \<lparr>blockChain = mockBlockChainWithDelete, pendingOperations = []\<rparr>"

definition afterGreenLineGlobals :: globals where
  "afterGreenLineGlobals =
     \<lparr>blockChain =
        \<lparr>Blocks = Blocks mockBlockChainWithDelete @ [(blockSixHash, greenLineBlock)],
         NewestHash = blockSixHash\<rparr>,
      pendingOperations = []\<rparr>"

text \<open>Globals after the first and after the second block of the mock chain.\<close>

definition oneBlockGlobals :: globals where
  "oneBlockGlobals =
     \<lparr>blockChain = \<lparr>Blocks = [(blockOneHash, noOPBlockMinerOne)], NewestHash = blockOneHash\<rparr>,
      pendingOperations = []\<rparr>"

definition twoBlockGlobals :: globals where
  "twoBlockGlobals =
     \<lparr>blockChain =
        \<lparr>Blocks = [(blockOneHash, noOPBlockMinerOne), (blockTwoHash, noOPBlockMinerTwo)],
         NewestHash = blockTwoHash\<rparr>,
      pendingOperations = []\<rparr>"

section \<open>Evaluating the test data\<close>

lemmas test_data_defs =
  GENESIS_BLOCK_HASH_def SVG_OP_ONE_def SVG_OP_TWO_def SVG_OP_THREE_def
  minerOnePublicKey_def minerTwoPublicKey_def testSettings_def minerOne_def minerTwo_def
  noOPBlockMinerOne_def blockOneHash_def noOPBlockMinerTwo_def blockTwoHash_def
  minerOneOpRecordOne_def opRecOneHash_def minerOneOpRecordTwo_def opRecTwoHash_def
  minerTwoOpRecord_def opRecThreeHash_def opBlockMinerOne_def blockThreeHash_def
  opBlockMinerTwo_def blockFourHash_def mockBlockChain_def
  minerTwoDeleteRecord_def deleteThreeHash_def deleteBlockMinerOne_def blockFiveHash_def
  mockBlockChainWithDelete_def minerOneDeleteRecord_def deleteOneHash_def
  deleteBlockMinerTwo_def blockFiveHashTwo_def mockBlockChainDeleteOne_def
  emptyBlockChain_def forgedOpRecord_def forgedOpHash_def forgedBlock_def forgedBlockChain_def
  waitingGlobals_def confirmedGlobals_def orphanedGlobals_def forgedGlobals_def
  deletedGlobals_def greenLineRequest_def emptyResponse_def refundPendingGlobals_def
  greenLineRecord_def greenLineHash_def greenLineBlock_def blockSixHash_def
  beforeGreenLineGlobals_def afterGreenLineGlobals_def oneBlockGlobals_def
  twoBlockGlobals_def

lemmas string_defs =
  strings_Split_def strings_EqualFold_def ascii_lower_def isOpDelete_def parsePath_def

lemmas hash_defs =
  ComputeBlockHash_def ComputeOpRecordHash_def computeBlockChainHash_def
  hex_EncodeToString_def hexdigit_def upt_conv_Cons drop_bit_eq_div toy_externals_def

section \<open>Properties of \<open>verifyTrailingZeros\<close>\<close>

lemma unat_31_minus: "unat i \<le> 31 \<Longrightarrow> unat (31 - i) = 31 - unat i" for i :: "8 word"
  by (simp add: unat_sub word_le_nat_alt)

lemma unat_succ_below: "i < n \<Longrightarrow> unat (i + 1) = unat i + 1" for i n :: "8 word"
proof -
  assume "i < n"
  then have "unat i < unat n" by (simp add: word_less_nat_alt)
  moreover have "unat n < 256" using unsigned_less [of n, where ?'a = nat] by simp
  ultimately show ?thesis by (simp add: unat_word_ariths)
qed

lemma verifyTrailingZeros_loop_32:
  "length hash = 32 \<Longrightarrow> unat numZeros \<le> 32 \<Longrightarrow>
   verifyTrailingZeros_loop hash numZeros i =
     Returns (\<forall>j. unat i \<le> j \<and> j < unat numZeros \<longrightarrow> hash ! (31 - j) = CHR ''0'')"
proof (induction hash numZeros i rule: verifyTrailingZeros_loop.induct)
  case (1 hash numZeros i)
  show ?case
  proof (cases "i < numZeros")
    case False
    then have "\<not> unat i < unat numZeros" by (simp add: word_less_nat_alt)
    then show ?thesis
      using False by (subst verifyTrailingZeros_loop.simps) auto
  next
    case True
    then have lt: "unat i < unat numZeros" by (simp add: word_less_nat_alt)
    with "1.prems" have i31: "unat i \<le> 31" by simp
    have idx: "unat (31 - i) = 31 - unat i" using i31 by (rule unat_31_minus)
    have inb: "unat (31 - i) < length hash" using idx "1.prems" by simp
    have suc: "unat (i + 1) = unat i + 1" using True by (rule unat_succ_below)
    show ?thesis
    proof (cases "hash ! (31 - unat i) = CHR ''0''")
      case False
      then show ?thesis
        using True inb idx lt by (subst verifyTrailingZeros_loop.simps) auto
    next
      case z: True
      have IH: "verifyTrailingZeros_loop hash numZeros (i + 1) =
        Returns (\<forall>j. unat (i + 1) \<le> j \<and> j < unat numZeros \<longrightarrow> hash ! (31 - j) = CHR ''0'')"
        using "1.IH" [OF True inb _ "1.prems"] z idx by simp
      have "(\<forall>j. unat i + 1 \<le> j \<and> j < unat numZeros \<longrightarrow> hash ! (31 - j) = CHR ''0'')
          = (\<forall>j. unat i \<le> j \<and> j < unat numZeros \<longrightarrow> hash ! (31 - j) = CHR ''0'')"
        using z by (metis Suc_eq_plus1 Suc_leI le_eq_less_or_eq add_leD1)
      then show ?thesis
        using True inb idx z IH suc by (subst verifyTrailingZeros_loop.simps) simp
    qed
  qed
qed

lemma last_chars:
  assumes "length hash = 32" "n \<le> 32"
  shows "(\<forall>j. j < n \<longrightarrow> hash ! (31 - j) = c) = (\<forall>x \<in> set (drop (32 - n) hash). x = c)"
proof
  assume L: "\<forall>j. j < n \<longrightarrow> hash ! (31 - j) = c"
  show "\<forall>x \<in> set (drop (32 - n) hash). x = c"
  proof
    fix x assume "x \<in> set (drop (32 - n) hash)"
    then obtain i where i: "i < length (drop (32 - n) hash)" "x = drop (32 - n) hash ! i"
      by (auto simp: in_set_conv_nth)
    from i assms have "i < n" by simp
    then have "n - 1 - i < n" by simp
    then have "hash ! (31 - (n - 1 - i)) = c" using L by blast
    moreover have "31 - (n - 1 - i) = 32 - n + i" using \<open>i < n\<close> assms by simp
    ultimately show "x = c" using i assms by simp
  qed
next
  assume R: "\<forall>x \<in> set (drop (32 - n) hash). x = c"
  show "\<forall>j. j < n \<longrightarrow> hash ! (31 - j) = c"
  proof (intro allI impI)
    fix j assume "j < n"
    then have "n - 1 - j < length (drop (32 - n) hash)" using assms by simp
    then have "drop (32 - n) hash ! (n - 1 - j) \<in> set (drop (32 - n) hash)"
      by (rule nth_mem)
    then have "drop (32 - n) hash ! (n - 1 - j) = c" using R by blast
    moreover have "32 - n + (n - 1 - j) = 31 - j" using \<open>j < n\<close> assms by simp
    ultimately show "hash ! (31 - j) = c" using assms by simp
  qed
qed

lemma verifyTrailingZeros_32:
  assumes "length hash = 32" "unat numZeros \<le> 32"
  shows "verifyTrailingZeros hash numZeros =
           Returns (\<forall>c \<in> set (drop (32 - unat numZeros) hash). c = CHR ''0'')"
proof -
  have "verifyTrailingZeros hash numZeros =
          Returns (\<forall>j. j < unat numZeros \<longrightarrow> hash ! (31 - j) = CHR ''0'')"
    unfolding verifyTrailingZeros_def
    using verifyTrailingZeros_loop_32 [OF assms, of 0] by simp
  then show ?thesis
    using last_chars [OF assms] by simp
qed

lemma verifyTrailingZeros_short:
  assumes "length hash < 32" "1 \<le> numZeros"
  shows "verifyTrailingZeros hash numZeros = Crashes"
proof -
  have "(0::8 word) < numZeros"
    using assms(2) by (simp add: word_less_nat_alt word_le_nat_alt)
  then show ?thesis
    unfolding verifyTrailingZeros_def
    using assms(1) by (subst verifyTrailingZeros_loop.simps) simp
qed

text \<open>
  Claim C10. \<open>verifyTrailingZeros\<close> reads the positions \<open>31 - i\<close> for
  \<open>i < numZeros\<close>. On a string of length 32 with \<open>numZeros\<close> at most 32 every read
  is in bounds and the result is true exactly when the last \<open>numZeros\<close> characters
  are \<open>'0'\<close>. On a shorter string with \<open>numZeros\<close> at least 1 a read is out of
  bounds: the check is anchored at position 31, not at the end of the string.
\<close>

theorem verifyTrailingZeros_anchored_at_31:
  "(length hash = 32 \<and> unat numZeros \<le> 32 \<longrightarrow>
      verifyTrailingZeros hash numZeros =
        Returns (\<forall>c \<in> set (drop (32 - unat numZeros) hash). c = CHR ''0''))
   \<and> (length hash < 32 \<and> 1 \<le> numZeros \<longrightarrow> verifyTrailingZeros hash numZeros = Crashes)"
  using verifyTrailingZeros_32 [of hash numZeros] verifyTrailingZeros_short [of hash numZeros]
  by blast

theorem verifyTrailingZeros_anchored_at_31_witness:
  "verifyTrailingZeros ''0000000000000000000000000b001000'' 3 = Returns True
   \<and> verifyTrailingZeros ''0000000000000000000000000b001000'' 4 = Returns False
   \<and> verifyTrailingZeros ''b001000'' 3 = Crashes"
  using verifyTrailingZeros_anchored_at_31 [of "''0000000000000000000000000b001000''" 3]
        verifyTrailingZeros_anchored_at_31 [of "''0000000000000000000000000b001000''" 4]
        verifyTrailingZeros_anchored_at_31 [of "''b001000''" 3]
  by simp

section \<open>The ink balance\<close>

lemma GetInkTraversal_ops_sum:
  "GetInkTraversal_ops k ops acc = acc + (\<Sum>(h, opr) \<leftarrow> ops. op_ink_spec k opr)"
  by (induction ops arbitrary: acc) (auto simp: op_ink_spec_def)

lemma GetInkTraversal_loop_sum:
  "ancestry bc (GenesisBlockHash (settings m)) h bs \<Longrightarrow>
   \<forall>b \<in> set bs. MinerPubKey b \<noteq> None \<Longrightarrow>
   GetInkTraversal_loop m bc k h acc = Some (Returns (acc + ink_balance_spec m k bs))"
proof (induction bs arbitrary: h acc)
  case Nil
  then show ?case
    by (subst GetInkTraversal_loop.simps) (simp add: ink_balance_spec_def)
next
  case (Cons b bs)
  from Cons.prems have h: "h \<noteq> GenesisBlockHash (settings m)"
    and look: "map_of (Blocks bc) h = Some b"
    and rest: "ancestry bc (GenesisBlockHash (settings m)) (PrevHash b) bs"
    by simp_all
  from Cons.prems obtain mk where mk: "MinerPubKey b = Some mk" by auto
  have nn: "\<forall>b \<in> set bs. MinerPubKey b \<noteq> None" using Cons.prems by simp
  note IH = Cons.IH [OF rest nn]
  show ?case
    by (subst GetInkTraversal_loop.simps)
       (simp add: h look mk IH GetInkTraversal_ops_sum ink_balance_spec_def block_ink_spec_def)
qed

text \<open>
  \<open>GetInkTraversal\<close>, which dereferences both keys before it compares them, computes
  the balance of the specification on every chain whose ancestry reaches genesis through
  blocks that name their miner.
\<close>

lemma GetInkTraversal_balance:
  assumes "ancestry bc (GenesisBlockHash (settings m)) (NewestHash bc) bs"
    and "\<forall>b \<in> set bs. MinerPubKey b \<noteq> None"
  shows "GetInkTraversal m bc k = Some (Returns (ink_balance_spec m k bs))"
  unfolding GetInkTraversal_def
  using GetInkTraversal_loop_sum [OF assms, of k 0] by simp

lemma mockBlockChain_ancestry:
  "ancestry mockBlockChain GENESIS_BLOCK_HASH (NewestHash mockBlockChain)
     [opBlockMinerTwo, opBlockMinerOne, noOPBlockMinerTwo, noOPBlockMinerOne]"
  by (simp add: test_data_defs)

lemma mockBlockChain_balance_one:
  "ink_balance_spec minerOne minerOnePublicKey
     [opBlockMinerTwo, opBlockMinerOne, noOPBlockMinerTwo, noOPBlockMinerOne] = 10"
  by (simp add: ink_balance_spec_def block_ink_spec_def op_ink_spec_def test_data_defs
        string_defs)

text \<open>
  Claim C3. The ink balance of a key is the sum, over the blocks from the tip back to
  genesis, of the block reward when the key mined the block and, for each operation of
  the key, minus its ink for a create and plus its ink for a delete, keys compared by
  value.

  \<open>getInkTraversal\<close> of \<open>ink-miner.go\<close> compares the author of an operation,
  a key, with \<open>pubKey\<close>, a pointer: no operation ever counts. On the mock chain of
  the repository's test, miner one mined blocks one (NoOp, 10 ink) and three (Op, 20
  ink) and drew a shape for 20 ink: the balance of the claim is 10, which
  \<open>GetInkTraversal\<close> returns, and \<open>getInkTraversal\<close> returns 30.
\<close>

theorem getInkTraversal_ignores_operations:
  "ink_balance_spec minerOne minerOnePublicKey
     [opBlockMinerTwo, opBlockMinerOne, noOPBlockMinerTwo, noOPBlockMinerOne] = 10
   \<and> GetInkTraversal minerOne mockBlockChain minerOnePublicKey = Some (Returns 10)
   \<and> getInkTraversal minerOne mockBlockChain minerOnePublicKey = Some (Returns 30)"
proof -
  have "getInkTraversal minerOne mockBlockChain minerOnePublicKey = Some (Returns 30)"
    by (simp add: getInkTraversal_def getInkTraversal_loop.simps test_data_defs string_defs)
  moreover have "GetInkTraversal minerOne mockBlockChain minerOnePublicKey = Some (Returns 10)"
    by (simp add: GetInkTraversal_def GetInkTraversal_loop.simps test_data_defs string_defs)
  ultimately show ?thesis
    using mockBlockChain_balance_one by simp
qed

section \<open>The canvas\<close>

text \<open>
  Within one block, \<open>removeShapesDeleted\<close> reads a stale element after each removal;
  it panics when a shape occurs twice and is deleted, or when two shapes of the block
  are both deleted in it.
\<close>

lemma removeShapesDeleted_examples:
  "removeShapesDeleted [''a'', ''b'', ''c''] [''a''] = Returns [''b'', ''c'']"
  "removeShapesDeleted [''a'', ''a''] [''a''] = Crashes"
  "removeShapesDeleted [''a'', ''b''] [''a'', ''b''] = Crashes"
  "removeShapesDeleted [''a'', ''b'', ''c''] [''a'', ''a''] = Returns [''c'']"
  by (simp_all add: removeShapesDeleted_def upt_conv_Cons)

text \<open>
  Claim C4. The shapes used for overlap tests against the creates of a key are the
  creates of the other keys in the ancestry of the tip, minus every shape that a later
  delete of the same ancestry names, also when the delete and the create are in
  different blocks.

  \<open>GetShapeTraversal\<close> collects block by block, and \<open>getShapesFromOpRecords\<close>
  removes only what the same block deletes. In the mock chain with a fifth block, miner
  two has deleted, in block five, its shape of block four: for miner one the canvas of
  the claim holds the shape of block three alone, and \<open>GetShapeTraversal\<close> returns
  the deleted shape as well.
\<close>

theorem GetShapeTraversal_keeps_deleted_shape:
  "ancestry mockBlockChainWithDelete GENESIS_BLOCK_HASH (NewestHash mockBlockChainWithDelete)
     [deleteBlockMinerOne, opBlockMinerTwo, opBlockMinerOne, noOPBlockMinerTwo, noOPBlockMinerOne]
   \<and> map (\<lambda>opr. parsePath (Op opr))
         (canvas_shapes_spec minerOnePublicKey
            [deleteBlockMinerOne, opBlockMinerTwo, opBlockMinerOne, noOPBlockMinerTwo,
             noOPBlockMinerOne])
       = [Returns (''M 30 30 L 40 40'', ''transparent'')]
   \<and> GetShapeTraversal minerOne mockBlockChainWithDelete minerOnePublicKey
       = Some (Returns [''M 50 50 L 60 60'', ''M 30 30 L 40 40''])"
proof -
  have "GetShapeTraversal minerOne mockBlockChainWithDelete minerOnePublicKey
       = Some (Returns [''M 50 50 L 60 60'', ''M 30 30 L 40 40''])"
    by (simp add: GetShapeTraversal_def GetShapeTraversal_loop.simps getShapesFromOpRecords_def
          removeShapesDeleted_def test_data_defs string_defs)
  moreover have "map (\<lambda>opr. parsePath (Op opr))
         (canvas_shapes_spec minerOnePublicKey
            [deleteBlockMinerOne, opBlockMinerTwo, opBlockMinerOne, noOPBlockMinerTwo,
             noOPBlockMinerOne])
       = [Returns (''M 30 30 L 40 40'', ''transparent'')]"
    by (simp add: canvas_shapes_spec_def test_data_defs string_defs)
  moreover have "ancestry mockBlockChainWithDelete GENESIS_BLOCK_HASH (NewestHash mockBlockChainWithDelete)
     [deleteBlockMinerOne, opBlockMinerTwo, opBlockMinerOne, noOPBlockMinerTwo, noOPBlockMinerOne]"
    by (simp add: test_data_defs)
  ultimately show ?thesis by blast
qed

section \<open>\<open>GetShapes\<close>\<close>

lemma GetShapes_output_unchanged: "snd (GetShapes bc blockHash shapeHashes) = shapeHashes"
  by (simp add: GetShapes_def Let_def split: option.split)

text \<open>
  Claim C9. For a hash in the store \<open>GetShapes\<close> returns the op strings of the
  block's operations, one per operation, with a nil error; for a hash that is not in the
  store it returns INVALIDBLOCKHASH and leaves the output as it was.

  The second half holds. For a stored block the function builds the list in a local
  variable that hides its output parameter: block three of the mock chain has two
  operations, and the caller's slice is still empty after the call.
\<close>

theorem GetShapes_leaves_output_empty:
  "map_of (Blocks mockBlockChain) blockThreeHash = Some opBlockMinerOne
   \<and> map (\<lambda>(h, v). Op v) (OpRecords opBlockMinerOne) = [SVG_OP_ONE, SVG_OP_TWO]
   \<and> GetShapes mockBlockChain blockThreeHash [] = (None, [])
   \<and> GetShapes mockBlockChain GENESIS_BLOCK_HASH [] = (Some INVALIDBLOCKHASH, [])"
  by (simp add: GetShapes_def test_data_defs)

section \<open>\<open>GetInk\<close>\<close>

text \<open>
  Claim C8, as stated, fails: \<open>GetInk\<close> never returns an error, but a negative
  balance is not floored at 0. In the chain with the forged block miner one has mined
  10 ink and an operation in its name has spent 20: the balance is -10 and the reported
  value is 4294967286.
\<close>

theorem GetInk_negative_balance_wraps:
  "GetInkTraversal minerOne forgedBlockChain minerOnePublicKey = Some (Returns (- 10))
   \<and> GetInk minerOne forgedBlockChain = Some (Returns (None, 4294967286))"
  by (simp add: GetInk_def GetInkTraversal_def GetInkTraversal_loop.simps test_data_defs
        string_defs)

lemma GetInk_no_error: "GetInk m bc = Some (Returns (e, w)) \<Longrightarrow> e = None"
  by (auto simp: GetInk_def split: option.splits outcome.splits)

text \<open>
  Claim C8, amended. \<open>GetInk\<close> never returns an error. On a chain whose ancestry
  reaches genesis through blocks that name their miner, it reports the balance converted
  to \<open>uint32\<close>, the balance modulo \<open>2 ^ 32\<close>: the balance itself when it is
  non-negative and below \<open>2 ^ 32\<close>.
\<close>

theorem GetInk_reports_low_32_bits:
  "(\<forall>e w. GetInk m bc = Some (Returns (e, w)) \<longrightarrow> e = None)
   \<and> (ancestry bc (GenesisBlockHash (settings m)) (NewestHash bc) bs
        \<and> (\<forall>b \<in> set bs. MinerPubKey b \<noteq> None) \<longrightarrow>
      (\<exists>w. GetInk m bc = Some (Returns (None, w))
           \<and> uint w = ink_balance_spec m (minerKey m) bs mod 2 ^ 32))"
proof (intro conjI allI impI)
  fix e w assume "GetInk m bc = Some (Returns (e, w))"
  then show "e = None" by (rule GetInk_no_error)
next
  assume "ancestry bc (GenesisBlockHash (settings m)) (NewestHash bc) bs
            \<and> (\<forall>b \<in> set bs. MinerPubKey b \<noteq> None)"
  then have "GetInkTraversal m bc (minerKey m)
               = Some (Returns (ink_balance_spec m (minerKey m) bs))"
    using GetInkTraversal_balance by blast
  then have "GetInk m bc
               = Some (Returns (None, word_of_int (ink_balance_spec m (minerKey m) bs)))"
    by (simp add: GetInk_def)
  moreover have "uint (word_of_int (ink_balance_spec m (minerKey m) bs) :: 32 word)
                   = ink_balance_spec m (minerKey m) bs mod 2 ^ 32"
    by (simp add: uint_word_of_int)
  ultimately show "\<exists>w. GetInk m bc = Some (Returns (None, w))
           \<and> uint w = ink_balance_spec m (minerKey m) bs mod 2 ^ 32"
    by blast
qed

lemma forgedBlockChain_ancestry:
  "ancestry forgedBlockChain GENESIS_BLOCK_HASH (NewestHash forgedBlockChain)
     [forgedBlock, noOPBlockMinerOne]"
  by (simp add: test_data_defs)

lemma forgedBlockChain_balance_one:
  "ink_balance_spec minerOne minerOnePublicKey [forgedBlock, noOPBlockMinerOne] = - 10"
  by (simp add: ink_balance_spec_def block_ink_spec_def op_ink_spec_def test_data_defs
        string_defs)

theorem GetInk_reports_low_32_bits_witness:
  "(\<exists>w. GetInk minerOne mockBlockChain = Some (Returns (None, w)) \<and> uint w = 10)
   \<and> (\<exists>w. GetInk minerOne forgedBlockChain = Some (Returns (None, w)) \<and> uint w = 4294967286)"
proof -
  have g: "GenesisBlockHash (settings minerOne) = GENESIS_BLOCK_HASH"
    and k: "minerKey minerOne = minerOnePublicKey"
    by (simp_all add: minerOne_def testSettings_def)
  have n1: "\<forall>b \<in> set [opBlockMinerTwo, opBlockMinerOne, noOPBlockMinerTwo, noOPBlockMinerOne].
              MinerPubKey b \<noteq> None"
    by (simp add: test_data_defs)
  have n2: "\<forall>b \<in> set [forgedBlock, noOPBlockMinerOne]. MinerPubKey b \<noteq> None"
    by (simp add: test_data_defs)
  from GetInk_reports_low_32_bits [of minerOne mockBlockChain
         "[opBlockMinerTwo, opBlockMinerOne, noOPBlockMinerTwo, noOPBlockMinerOne]"]
       mockBlockChain_ancestry n1
  have "\<exists>w. GetInk minerOne mockBlockChain = Some (Returns (None, w)) \<and> uint w = 10"
    by (simp add: g k mockBlockChain_balance_one)
  moreover
  from GetInk_reports_low_32_bits [of minerOne forgedBlockChain "[forgedBlock, noOPBlockMinerOne]"]
       forgedBlockChain_ancestry n2
  have "\<exists>w. GetInk minerOne forgedBlockChain = Some (Returns (None, w)) \<and> uint w = 4294967286"
    by (simp add: g k forgedBlockChain_balance_one)
  ultimately show ?thesis by blast
qed

section \<open>Gossip of operations: \<open>DisseminateOperation\<close>\<close>

text \<open>
  Claim C7, as stated, fails: a gossiped operation is not checked before it enters the
  pending pool. The forged operation names miner one as its author, who has no ink on
  the empty chain, and carries a signature that does not verify; \<open>isValidOperation\<close>
  rejects it, and \<open>DisseminateOperation\<close> stores and forwards it.
\<close>

theorem DisseminateOperation_accepts_invalid_operation:
  "GetInkTraversal minerTwo emptyBlockChain (AuthorPubKey forgedOpRecord) = Some (Returns 0)
   \<and> isValidOperation toy_externals minerTwo emptyBlockChain forgedOpRecord = Some (Returns False)
   \<and> \<not> ecdsa_Verify toy_externals (AuthorPubKey forgedOpRecord) (Op forgedOpRecord)
         (OpSigR forgedOpRecord) (OpSigS forgedOpRecord)
   \<and> DisseminateOperation toy_externals [] forgedOpRecord
       = (None, [(forgedOpHash, forgedOpRecord)], [SendOperation forgedOpRecord])"
proof -
  have "GetInkTraversal minerTwo emptyBlockChain (AuthorPubKey forgedOpRecord) = Some (Returns 0)"
    by (simp add: GetInkTraversal_def GetInkTraversal_loop.simps test_data_defs)
  moreover from this
  have "isValidOperation toy_externals minerTwo emptyBlockChain forgedOpRecord = Some (Returns False)"
    by (simp add: isValidOperation_def)
  moreover have "\<not> ecdsa_Verify toy_externals (AuthorPubKey forgedOpRecord) (Op forgedOpRecord)
         (OpSigR forgedOpRecord) (OpSigS forgedOpRecord)"
    by (simp add: toy_externals_def test_data_defs)
  moreover have "ComputeOpRecordHash toy_externals forgedOpRecord = forgedOpHash"
    by (simp add: hash_defs test_data_defs)
  then have "DisseminateOperation toy_externals [] forgedOpRecord
       = (None, [(forgedOpHash, forgedOpRecord)], [SendOperation forgedOpRecord])"
    by (simp add: DisseminateOperation_def)
  ultimately show ?thesis by blast
qed

text \<open>
  Claim C7, amended. An operation received via gossip is inserted into the pending pool
  and forwarded once exactly when its op-hash is not pending yet, whatever its bounds,
  signature and ink; an operation that is already pending leaves the pool as it is and
  is not forwarded. No error is returned in either case.
\<close>

theorem DisseminateOperation_inserts_unless_pending:
  "DisseminateOperation ext pending op =
     (if map_of pending (ComputeOpRecordHash ext op) = None
      then (None, pending @ [(ComputeOpRecordHash ext op, op)], [SendOperation op])
      else (None, pending, []))"
  by (simp add: DisseminateOperation_def Let_def)

theorem DisseminateOperation_inserts_unless_pending_witness:
  "DisseminateOperation toy_externals [] minerOneOpRecordOne
     = (None, [(opRecOneHash, minerOneOpRecordOne)], [SendOperation minerOneOpRecordOne])
   \<and> DisseminateOperation toy_externals [(opRecOneHash, minerOneOpRecordOne)] minerOneOpRecordOne
     = (None, [(opRecOneHash, minerOneOpRecordOne)], [])"
proof -
  have h: "ComputeOpRecordHash toy_externals minerOneOpRecordOne = opRecOneHash"
    by (simp add: hash_defs test_data_defs)
  show ?thesis
    using DisseminateOperation_inserts_unless_pending [of toy_externals "[]" minerOneOpRecordOne]
          DisseminateOperation_inserts_unless_pending
            [of toy_externals "[(opRecOneHash, minerOneOpRecordOne)]" minerOneOpRecordOne]
    by (simp add: h)
qed

section \<open>N-confirmation: \<open>IsValidatedByValidateNum\<close>\<close>

lemma ancestry_walk: "ancestry bc genesis h bs = walk bc genesis h bs genesis"
  by (induction bs arbitrary: h) auto

lemma GetOpRecordTraversal_loop_found_aux:
  assumes "GetOpRecordTraversal_loop bc shapeHash genesis start = Some r"
  shows "\<forall>opRecord blockHash. r = Returns (Some (opRecord, blockHash)) \<longrightarrow>
   (\<exists>bs b. walk bc genesis start bs blockHash \<and> blockHash \<noteq> genesis
     \<and> (\<forall>b' \<in> set bs. map_of (OpRecords b') shapeHash = None)
     \<and> map_of (Blocks bc) blockHash = Some b \<and> map_of (OpRecords b) shapeHash = Some opRecord)"
  using assms
proof (induction bc shapeHash genesis start r rule: GetOpRecordTraversal_loop.raw_induct)
  case (1 loop bc shapeHash genesis start r)
  show ?case
  proof (intro allI impI)
    fix opRecord blockHash
    assume r: "r = Returns (Some (opRecord, blockHash))"
    from "1.hyps" r have ng: "start \<noteq> genesis"
      by (auto split: if_splits)
    from "1.hyps" r ng obtain block where look: "map_of (Blocks bc) start = Some block"
      by (auto split: option.splits)
    show "\<exists>bs b. walk bc genesis start bs blockHash \<and> blockHash \<noteq> genesis
       \<and> (\<forall>b' \<in> set bs. map_of (OpRecords b') shapeHash = None)
       \<and> map_of (Blocks bc) blockHash = Some b \<and> map_of (OpRecords b) shapeHash = Some opRecord"
    proof (cases "if OpRecords block \<noteq> [] then map_of (OpRecords block) shapeHash else None")
      case (Some found)
      with "1.hyps" r ng look have "found = opRecord" "start = blockHash" by auto
      moreover from Some have "map_of (OpRecords block) shapeHash = Some found"
        by (auto split: if_splits)
      ultimately have "walk bc genesis start [] blockHash \<and> blockHash \<noteq> genesis
         \<and> (\<forall>b' \<in> set []. map_of (OpRecords b') shapeHash = None)
         \<and> map_of (Blocks bc) blockHash = Some block
         \<and> map_of (OpRecords block) shapeHash = Some opRecord"
        using ng look by simp
      then show ?thesis by blast
    next
      case None
      then have none: "map_of (OpRecords block) shapeHash = None"
        by (auto split: if_splits)
      from None "1.hyps" ng look
      have "loop bc shapeHash genesis (PrevHash block) = Some r" by simp
      moreover from "1.prems"
      have "GetOpRecordTraversal_loop bc shapeHash genesis (PrevHash block) = Some r"
        using None ng look by (subst (asm) GetOpRecordTraversal_loop.simps) simp
      ultimately have "\<forall>opRecord blockHash. r = Returns (Some (opRecord, blockHash)) \<longrightarrow>
         (\<exists>bs b. walk bc genesis (PrevHash block) bs blockHash \<and> blockHash \<noteq> genesis
           \<and> (\<forall>b' \<in> set bs. map_of (OpRecords b') shapeHash = None)
           \<and> map_of (Blocks bc) blockHash = Some b
           \<and> map_of (OpRecords b) shapeHash = Some opRecord)"
        by (rule "1.IH")
      with r
      obtain bs b where w: "walk bc genesis (PrevHash block) bs blockHash" "blockHash \<noteq> genesis"
        "\<forall>b' \<in> set bs. map_of (OpRecords b') shapeHash = None"
        "map_of (Blocks bc) blockHash = Some b" "map_of (OpRecords b) shapeHash = Some opRecord"
        by blast
      then have "walk bc genesis start (block # bs) blockHash \<and> blockHash \<noteq> genesis
         \<and> (\<forall>b' \<in> set (block # bs). map_of (OpRecords b') shapeHash = None)
         \<and> map_of (Blocks bc) blockHash = Some b
         \<and> map_of (OpRecords b) shapeHash = Some opRecord"
        using ng look none by simp
      then show ?thesis by blast
    qed
  qed
qed (rule assms)

lemma GetOpRecordTraversal_loop_found:
  "GetOpRecordTraversal_loop bc shapeHash genesis start
     = Some (Returns (Some (opRecord, blockHash))) \<Longrightarrow>
   \<exists>bs b. walk bc genesis start bs blockHash \<and> blockHash \<noteq> genesis
     \<and> (\<forall>b' \<in> set bs. map_of (OpRecords b') shapeHash = None)
     \<and> map_of (Blocks bc) blockHash = Some b \<and> map_of (OpRecords b) shapeHash = Some opRecord"
  using GetOpRecordTraversal_loop_found_aux by blast

lemma GetOpRecordTraversal_loop_absent:
  "ancestry bc genesis start bs \<Longrightarrow>
   \<forall>b \<in> set bs. map_of (OpRecords b) shapeHash = None \<Longrightarrow>
   GetOpRecordTraversal_loop bc shapeHash genesis start = Some (Returns None)"
proof (induction bs arbitrary: start)
  case Nil
  then show ?case by (subst GetOpRecordTraversal_loop.simps) simp
next
  case (Cons b bs)
  then show ?case by (subst GetOpRecordTraversal_loop.simps) simp
qed

lemma IsValidatedByValidateNum_inner_success:
  "IsValidatedByValidateNum_inner ext polls h vn genesis pk = Some (Returns (bh, True)) \<Longrightarrow>
   \<exists>g \<in> set polls. \<exists>opRecord blockOfOp newestBlock.
     GetOpRecordTraversal (blockChain g) h genesis = Some (Returns (Some (opRecord, bh)))
     \<and> map_of (Blocks (blockChain g)) bh = Some blockOfOp
     \<and> map_of (Blocks (blockChain g)) (NewestHash (blockChain g)) = Some newestBlock
     \<and> BlockNum newestBlock - BlockNum blockOfOp \<ge> ucast vn
     \<and> VerifyOpRecordAuthor ext pk opRecord"
proof (induction polls)
  case Nil
  then show ?case by simp
next
  case (Cons g later)
  show ?case
  proof (cases "IsValidatedByValidateNum_inner ext later h vn genesis pk = Some (Returns (bh, True))")
    case True
    from Cons.IH [OF True] show ?thesis by auto
  next
    case False
    with Cons.prems show ?thesis
      by (auto split: option.splits outcome.splits if_splits)
  qed
qed

lemma IsValidatedByValidateNum_success:
  "IsValidatedByValidateNum ext polls h vn genesis pk = Some (Returns (bh, True)) \<Longrightarrow>
   \<exists>g \<in> set polls. \<exists>opRecord blockOfOp newestBlock.
     GetOpRecordTraversal (blockChain g) h genesis = Some (Returns (Some (opRecord, bh)))
     \<and> map_of (Blocks (blockChain g)) bh = Some blockOfOp
     \<and> map_of (Blocks (blockChain g)) (NewestHash (blockChain g)) = Some newestBlock
     \<and> BlockNum newestBlock - BlockNum blockOfOp \<ge> ucast vn
     \<and> VerifyOpRecordAuthor ext pk opRecord"
proof (induction polls)
  case Nil
  then show ?case by simp
next
  case (Cons g later)
  show ?case
  proof (cases "map_of (pendingOperations g) h = None")
    case True
    with Cons.prems
    have "IsValidatedByValidateNum_inner ext (g # later) h vn genesis pk = Some (Returns (bh, True))"
      by simp
    from IsValidatedByValidateNum_inner_success [OF this] show ?thesis .
  next
    case False
    with Cons.prems
    have "IsValidatedByValidateNum ext later h vn genesis pk = Some (Returns (bh, True))"
      by simp
    from Cons.IH [OF this] show ?thesis by auto
  qed
qed

lemma IsValidatedByValidateNum_inner_append:
  "IsValidatedByValidateNum_inner ext waiting h vn genesis pk = None \<Longrightarrow>
   \<forall>g \<in> set waiting. GetOpRecordTraversal (blockChain g) h genesis \<noteq> None \<Longrightarrow>
   IsValidatedByValidateNum_inner ext (waiting @ rest) h vn genesis pk
     = IsValidatedByValidateNum_inner ext rest h vn genesis pk"
proof (induction waiting)
  case Nil
  then show ?case by simp
next
  case (Cons g waiting)
  from Cons.prems have t: "GetOpRecordTraversal (blockChain g) h genesis \<noteq> None" by simp
  from Cons.prems(1) t
  have w: "IsValidatedByValidateNum_inner ext waiting h vn genesis pk = None"
    by (auto split: option.splits outcome.splits if_splits)
  from Cons.prems have "\<forall>g \<in> set waiting. GetOpRecordTraversal (blockChain g) h genesis \<noteq> None"
    by simp
  note IH = Cons.IH [OF w this]
  from Cons.prems(1) t show ?case
    by (auto simp: IH split: option.splits outcome.splits if_splits)
qed

lemma IsValidatedByValidateNum_append:
  "IsValidatedByValidateNum ext waiting h vn genesis pk = None \<Longrightarrow>
   \<forall>g \<in> set waiting. GetOpRecordTraversal (blockChain g) h genesis \<noteq> None \<Longrightarrow>
   IsValidatedByValidateNum ext (waiting @ rest) h vn genesis pk
       = IsValidatedByValidateNum ext rest h vn genesis pk
   \<or> IsValidatedByValidateNum ext (waiting @ rest) h vn genesis pk
       = IsValidatedByValidateNum_inner ext rest h vn genesis pk"
proof (induction waiting)
  case Nil
  then show ?case by simp
next
  case (Cons g waiting)
  show ?case
  proof (cases "map_of (pendingOperations g) h = None")
    case True
    with Cons.prems(1)
    have "IsValidatedByValidateNum_inner ext (g # waiting) h vn genesis pk = None" by simp
    from IsValidatedByValidateNum_inner_append [OF this Cons.prems(2), of rest] True
    show ?thesis by simp
  next
    case False
    with Cons.prems have "IsValidatedByValidateNum ext waiting h vn genesis pk = None"
      and "\<forall>g \<in> set waiting. GetOpRecordTraversal (blockChain g) h genesis \<noteq> None"
      by simp_all
    from Cons.IH [OF this] False show ?thesis by auto
  qed
qed

text \<open>
  Claim C6. The wait for op-hash \<open>h\<close> and \<open>validate_num\<close> returns success, with
  the hash of the containing block, only when at some poll \<open>h\<close> is found in the
  ancestry of the tip, the block number of the tip minus the block number of the
  containing block (in \<open>uint32\<close>) is at least \<open>validate_num\<close>, and the author of
  the operation is the caller. It returns failure at a poll that finds \<open>h\<close> neither
  in the pending pool nor in the ancestry of the tip, when no earlier poll has returned
  and every earlier traversal has come to an end.
\<close>

theorem N_confirmation:
  "(IsValidatedByValidateNum ext polls h vn genesis pk = Some (Returns (bh, True)) \<longrightarrow>
      (\<exists>g \<in> set polls. \<exists>bs blockOfOp opRecord newestBlock.
         walk (blockChain g) genesis (NewestHash (blockChain g)) bs bh \<and> bh \<noteq> genesis
         \<and> map_of (Blocks (blockChain g)) bh = Some blockOfOp
         \<and> map_of (OpRecords blockOfOp) h = Some opRecord
         \<and> map_of (Blocks (blockChain g)) (NewestHash (blockChain g)) = Some newestBlock
         \<and> BlockNum newestBlock - BlockNum blockOfOp \<ge> ucast vn
         \<and> AuthorPubKey opRecord = pk))
   \<and> (IsValidatedByValidateNum ext waiting h vn genesis pk = None
        \<and> (\<forall>g' \<in> set waiting. GetOpRecordTraversal (blockChain g') h genesis \<noteq> None)
        \<and> map_of (pendingOperations g) h = None
        \<and> ancestry (blockChain g) genesis (NewestHash (blockChain g)) bs
        \<and> (\<forall>b \<in> set bs. map_of (OpRecords b) h = None) \<longrightarrow>
      IsValidatedByValidateNum ext (waiting @ g # later) h vn genesis pk
        = Some (Returns ([], False)))"
proof (intro conjI impI)
  assume "IsValidatedByValidateNum ext polls h vn genesis pk = Some (Returns (bh, True))"
  from IsValidatedByValidateNum_success [OF this]
  obtain g opRecord blockOfOp newestBlock where g: "g \<in> set polls"
    and t: "GetOpRecordTraversal (blockChain g) h genesis = Some (Returns (Some (opRecord, bh)))"
    and b: "map_of (Blocks (blockChain g)) bh = Some blockOfOp"
    and n: "map_of (Blocks (blockChain g)) (NewestHash (blockChain g)) = Some newestBlock"
    and d: "BlockNum newestBlock - BlockNum blockOfOp \<ge> ucast vn"
    and v: "VerifyOpRecordAuthor ext pk opRecord"
    by blast
  from t obtain bs b' where w: "walk (blockChain g) genesis (NewestHash (blockChain g)) bs bh"
    "bh \<noteq> genesis" "map_of (Blocks (blockChain g)) bh = Some b'"
    "map_of (OpRecords b') h = Some opRecord"
    unfolding GetOpRecordTraversal_def
    using GetOpRecordTraversal_loop_found by blast
  from w b have "b' = blockOfOp" by simp
  moreover from v have "AuthorPubKey opRecord = pk"
    by (simp add: VerifyOpRecordAuthor_def)
  ultimately show "\<exists>g \<in> set polls. \<exists>bs blockOfOp opRecord newestBlock.
         walk (blockChain g) genesis (NewestHash (blockChain g)) bs bh \<and> bh \<noteq> genesis
         \<and> map_of (Blocks (blockChain g)) bh = Some blockOfOp
         \<and> map_of (OpRecords blockOfOp) h = Some opRecord
         \<and> map_of (Blocks (blockChain g)) (NewestHash (blockChain g)) = Some newestBlock
         \<and> BlockNum newestBlock - BlockNum blockOfOp \<ge> ucast vn
         \<and> AuthorPubKey opRecord = pk"
    using g w n d by blast
next
  assume a: "IsValidatedByValidateNum ext waiting h vn genesis pk = None
        \<and> (\<forall>g' \<in> set waiting. GetOpRecordTraversal (blockChain g') h genesis \<noteq> None)
        \<and> map_of (pendingOperations g) h = None
        \<and> ancestry (blockChain g) genesis (NewestHash (blockChain g)) bs
        \<and> (\<forall>b \<in> set bs. map_of (OpRecords b) h = None)"
  then have t: "GetOpRecordTraversal (blockChain g) h genesis = Some (Returns None)"
    unfolding GetOpRecordTraversal_def
    using GetOpRecordTraversal_loop_absent by blast
  from a have p: "map_of (pendingOperations g) h = None" by simp
  have i: "IsValidatedByValidateNum_inner ext (g # later) h vn genesis pk = Some (Returns ([], False))"
    using t by simp
  then have o: "IsValidatedByValidateNum ext (g # later) h vn genesis pk = Some (Returns ([], False))"
    using p by simp
  from a IsValidatedByValidateNum_append [of ext waiting h vn genesis pk "g # later"]
  show "IsValidatedByValidateNum ext (waiting @ g # later) h vn genesis pk
        = Some (Returns ([], False))"
    using i o by auto
qed

theorem N_confirmation_witness:
  "IsValidatedByValidateNum toy_externals [waitingGlobals, confirmedGlobals] opRecOneHash 1
     GENESIS_BLOCK_HASH minerOnePublicKey = Some (Returns (blockThreeHash, True))
   \<and> (\<exists>g \<in> set [waitingGlobals, confirmedGlobals]. \<exists>bs blockOfOp opRecord newestBlock.
         walk (blockChain g) GENESIS_BLOCK_HASH (NewestHash (blockChain g)) bs blockThreeHash
         \<and> blockThreeHash \<noteq> GENESIS_BLOCK_HASH
         \<and> map_of (Blocks (blockChain g)) blockThreeHash = Some blockOfOp
         \<and> map_of (OpRecords blockOfOp) opRecOneHash = Some opRecord
         \<and> map_of (Blocks (blockChain g)) (NewestHash (blockChain g)) = Some newestBlock
         \<and> BlockNum newestBlock - BlockNum blockOfOp \<ge> ucast (1 :: 8 word)
         \<and> AuthorPubKey opRecord = minerOnePublicKey)
   \<and> IsValidatedByValidateNum toy_externals ([waitingGlobals] @ orphanedGlobals # [])
         opRecOneHash 1 GENESIS_BLOCK_HASH minerOnePublicKey = Some (Returns ([], False))"
proof -
  have e: "IsValidatedByValidateNum toy_externals [waitingGlobals, confirmedGlobals]
             opRecOneHash 1 GENESIS_BLOCK_HASH minerOnePublicKey
           = Some (Returns (blockThreeHash, True))"
    by (simp add: GetOpRecordTraversal_def GetOpRecordTraversal_loop.simps
          VerifyOpRecordAuthor_def toy_externals_def test_data_defs)
  have w: "IsValidatedByValidateNum toy_externals [waitingGlobals] opRecOneHash 1
             GENESIS_BLOCK_HASH minerOnePublicKey = None"
    by (simp add: test_data_defs)
  have t: "\<forall>g' \<in> set [waitingGlobals].
             GetOpRecordTraversal (blockChain g') opRecOneHash GENESIS_BLOCK_HASH \<noteq> None"
    by (simp add: GetOpRecordTraversal_def GetOpRecordTraversal_loop.simps test_data_defs)
  have p: "map_of (pendingOperations orphanedGlobals) opRecOneHash = None"
    by (simp add: test_data_defs)
  have a: "ancestry (blockChain orphanedGlobals) GENESIS_BLOCK_HASH
             (NewestHash (blockChain orphanedGlobals)) []"
    by (simp add: test_data_defs)
  have n: "\<forall>b \<in> set ([] :: Block list). map_of (OpRecords b) opRecOneHash = None"
    by simp
  note inst = N_confirmation [where ext = toy_externals
         and polls = "[waitingGlobals, confirmedGlobals]"
         and h = opRecOneHash and vn = 1 and genesis = GENESIS_BLOCK_HASH
         and pk = minerOnePublicKey and bh = blockThreeHash and waiting = "[waitingGlobals]"
         and g = orphanedGlobals and bs = "[]" and later = "[]"]
  from inst e w t p a n show ?thesis by blast
qed

section \<open>\<open>DeleteShape\<close>\<close>

lemma GetOpRecordTraversal_loop_walk:
  "walk bc genesis start bs blockHash \<Longrightarrow> blockHash \<noteq> genesis \<Longrightarrow>
   \<forall>b \<in> set bs. map_of (OpRecords b) shapeHash = None \<Longrightarrow>
   map_of (Blocks bc) blockHash = Some block \<Longrightarrow>
   map_of (OpRecords block) shapeHash = Some opRecord \<Longrightarrow>
   GetOpRecordTraversal_loop bc shapeHash genesis start
     = Some (Returns (Some (opRecord, blockHash)))"
proof (induction bs arbitrary: start)
  case Nil
  then have "OpRecords block \<noteq> []" by auto
  with Nil show ?case by (subst GetOpRecordTraversal_loop.simps) simp
next
  case (Cons b bs)
  then show ?case by (subst GetOpRecordTraversal_loop.simps) simp
qed

lemma GetOpRecordTraversal_found_at:
  "found_at bc genesis opHash bs blockHash opRecord \<Longrightarrow>
   GetOpRecordTraversal bc opHash genesis = Some (Returns (Some (opRecord, blockHash)))"
  unfolding found_at_def GetOpRecordTraversal_def
  by (auto simp: list_all_iff split: option.splits intro: GetOpRecordTraversal_loop_walk)

lemma GetOpRecordTraversal_absent_from:
  "absent_from bc genesis opHash bs \<Longrightarrow>
   GetOpRecordTraversal bc opHash genesis = Some (Returns None)"
  unfolding absent_from_def GetOpRecordTraversal_def
  by (auto simp: list_all_iff intro: GetOpRecordTraversal_loop_absent)

text \<open>
  Claim C5, as stated, fails: equality of the author with the requester does not
  suffice. \<open>VerifyOpRecordAuthor\<close> also verifies the signature of the stored
  operation under its author's key. The forged operation of the test data is in the
  ancestry of the tip and names miner one as its author, its signature (0, 0) does not
  verify, and miner one's request to delete it is answered with SHAPEOWNER.
\<close>

theorem DeleteShape_rejects_own_forged_shape:
  "found_at forgedBlockChain GENESIS_BLOCK_HASH forgedOpHash [] blockTwoHash forgedOpRecord
   \<and> AuthorPubKey forgedOpRecord = minerKey minerOne
   \<and> DeleteShape toy_externals minerOne forgedGlobals
        \<lparr>DelValidateNum = 0, DelShapeHash = forgedOpHash\<rparr> (11, 12) 0 [] forgedGlobals
      = Some (Returns (Some SHAPEOWNER, 0, [], []))"
  by (simp add: found_at_def DeleteShape_def GetOpRecordTraversal_def
        GetOpRecordTraversal_loop.simps VerifyOpRecordAuthor_def toy_externals_def
        test_data_defs)

text \<open>
  Claim C5, amended. When the shape hash resolves in the ancestry of the tip to an
  operation whose author equals the requesting miner's key (by value) and whose
  signature verifies under that key, no SHAPEOWNER error is returned, and the operation
  put into the pending pool (unless its hash is pending already) has the op string
  \<open>"delete "\<close> followed by the original op string. When the author differs, or the
  signature does not verify, or the hash is not found, SHAPEOWNER is returned and
  nothing is enqueued.
\<close>

theorem DeleteShape_owner_and_signature:
  "(found_at (blockChain g) (GenesisBlockHash (settings m)) (DelShapeHash req) bs bh opRecord
      \<and> AuthorPubKey opRecord = minerKey m
      \<and> ecdsa_Verify ext (AuthorPubKey opRecord) (Op opRecord) (OpSigR opRecord)
           (OpSigS opRecord)
      \<and> DeleteShape ext m g req sig ink later final = Some (Returns (e, ink', pending, msgs))
    \<longrightarrow> e \<noteq> Some SHAPEOWNER
        \<and> (let newOp = \<lparr>Op = ''delete '' @ Op opRecord, InkUsed = InkUsed opRecord,
                           OpSigR = fst sig, OpSigS = snd sig, AuthorPubKey = minerKey m\<rparr>
           in if map_of (pendingOperations g) (ComputeOpRecordHash ext newOp) = None
              then pending = pendingOperations g @ [(ComputeOpRecordHash ext newOp, newOp)]
                   \<and> msgs = [SendOperation newOp]
              else pending = pendingOperations g \<and> msgs = []))
   \<and> (found_at (blockChain g) (GenesisBlockHash (settings m)) (DelShapeHash req) bs bh opRecord
      \<and> (AuthorPubKey opRecord \<noteq> minerKey m
          \<or> \<not> ecdsa_Verify ext (AuthorPubKey opRecord) (Op opRecord) (OpSigR opRecord)
                (OpSigS opRecord))
    \<longrightarrow> DeleteShape ext m g req sig ink later final
          = Some (Returns (Some SHAPEOWNER, ink, pendingOperations g, [])))
   \<and> (absent_from (blockChain g) (GenesisBlockHash (settings m)) (DelShapeHash req) bs
    \<longrightarrow> DeleteShape ext m g req sig ink later final
          = Some (Returns (Some SHAPEOWNER, ink, pendingOperations g, [])))"
proof (intro conjI impI)
  assume a: "found_at (blockChain g) (GenesisBlockHash (settings m)) (DelShapeHash req) bs bh opRecord
      \<and> AuthorPubKey opRecord = minerKey m
      \<and> ecdsa_Verify ext (AuthorPubKey opRecord) (Op opRecord) (OpSigR opRecord)
           (OpSigS opRecord)
      \<and> DeleteShape ext m g req sig ink later final = Some (Returns (e, ink', pending, msgs))"
  then have t: "GetOpRecordTraversal (blockChain g) (DelShapeHash req)
                  (GenesisBlockHash (settings m)) = Some (Returns (Some (opRecord, bh)))"
    using GetOpRecordTraversal_found_at by blast
  from a have v: "VerifyOpRecordAuthor ext (minerKey m) opRecord"
    by (auto simp: VerifyOpRecordAuthor_def)
  from a have d: "DeleteShape ext m g req sig ink later final
                    = Some (Returns (e, ink', pending, msgs))" by simp
  from d t v show "e \<noteq> Some SHAPEOWNER"
    by (auto simp: DeleteShape_def Let_def split: option.splits outcome.splits if_splits)
  from d t v show "let newOp = \<lparr>Op = ''delete '' @ Op opRecord, InkUsed = InkUsed opRecord,
                           OpSigR = fst sig, OpSigS = snd sig, AuthorPubKey = minerKey m\<rparr>
           in if map_of (pendingOperations g) (ComputeOpRecordHash ext newOp) = None
              then pending = pendingOperations g @ [(ComputeOpRecordHash ext newOp, newOp)]
                   \<and> msgs = [SendOperation newOp]
              else pending = pendingOperations g \<and> msgs = []"
    by (auto simp: DeleteShape_def Let_def concatStrings_def broadcastNewOperation_def
             split: option.splits outcome.splits if_splits)
next
  assume a: "found_at (blockChain g) (GenesisBlockHash (settings m)) (DelShapeHash req) bs bh opRecord
      \<and> (AuthorPubKey opRecord \<noteq> minerKey m
          \<or> \<not> ecdsa_Verify ext (AuthorPubKey opRecord) (Op opRecord) (OpSigR opRecord)
                (OpSigS opRecord))"
  then have t: "GetOpRecordTraversal (blockChain g) (DelShapeHash req)
                  (GenesisBlockHash (settings m)) = Some (Returns (Some (opRecord, bh)))"
    using GetOpRecordTraversal_found_at by blast
  from a have v: "\<not> VerifyOpRecordAuthor ext (minerKey m) opRecord"
    by (auto simp: VerifyOpRecordAuthor_def)
  from t v show "DeleteShape ext m g req sig ink later final
          = Some (Returns (Some SHAPEOWNER, ink, pendingOperations g, []))"
    by (simp add: DeleteShape_def)
next
  assume "absent_from (blockChain g) (GenesisBlockHash (settings m)) (DelShapeHash req) bs"
  then have "GetOpRecordTraversal (blockChain g) (DelShapeHash req)
                  (GenesisBlockHash (settings m)) = Some (Returns None)"
    by (rule GetOpRecordTraversal_absent_from)
  then show "DeleteShape ext m g req sig ink later final
          = Some (Returns (Some SHAPEOWNER, ink, pendingOperations g, []))"
    by (simp add: DeleteShape_def)
qed

theorem DeleteShape_owner_and_signature_witness:
  "(found_at (blockChain confirmedGlobals) GENESIS_BLOCK_HASH opRecOneHash [opBlockMinerTwo]
      blockThreeHash minerOneOpRecordOne
    \<and> DeleteShape toy_externals minerOne confirmedGlobals
         \<lparr>DelValidateNum = 0, DelShapeHash = opRecOneHash\<rparr> (11, 12) 0 [deletedGlobals]
         deletedGlobals
       = Some (Returns (None, 30, [(deleteOneHash, minerOneDeleteRecord)],
                        [SendOperation minerOneDeleteRecord]))
    \<and> (None :: error option) \<noteq> Some SHAPEOWNER
    \<and> Op minerOneDeleteRecord = ''delete '' @ Op minerOneOpRecordOne)
   \<and> DeleteShape toy_externals minerTwo confirmedGlobals
         \<lparr>DelValidateNum = 0, DelShapeHash = opRecOneHash\<rparr> (21, 22) 0 [deletedGlobals]
         deletedGlobals
       = Some (Returns (Some SHAPEOWNER, 0, [], []))
   \<and> DeleteShape toy_externals minerOne orphanedGlobals
         \<lparr>DelValidateNum = 0, DelShapeHash = opRecOneHash\<rparr> (11, 12) 0 [] orphanedGlobals
       = Some (Returns (Some SHAPEOWNER, 0, [], []))"
proof -
  have g: "GenesisBlockHash (settings minerOne) = GENESIS_BLOCK_HASH"
      "GenesisBlockHash (settings minerTwo) = GENESIS_BLOCK_HASH"
    by (simp_all add: test_data_defs)
  have f: "found_at (blockChain confirmedGlobals) GENESIS_BLOCK_HASH opRecOneHash
             [opBlockMinerTwo] blockThreeHash minerOneOpRecordOne"
    by (simp add: found_at_def test_data_defs)
  have au: "AuthorPubKey minerOneOpRecordOne = minerKey minerOne"
      "AuthorPubKey minerOneOpRecordOne \<noteq> minerKey minerTwo"
    by (simp_all add: test_data_defs)
  have v: "ecdsa_Verify toy_externals (AuthorPubKey minerOneOpRecordOne)
             (Op minerOneOpRecordOne) (OpSigR minerOneOpRecordOne) (OpSigS minerOneOpRecordOne)"
    by (simp add: toy_externals_def test_data_defs)
  have d: "DeleteShape toy_externals minerOne confirmedGlobals
             \<lparr>DelValidateNum = 0, DelShapeHash = opRecOneHash\<rparr> (11, 12) 0 [deletedGlobals]
             deletedGlobals
           = Some (Returns (None, 30, [(deleteOneHash, minerOneDeleteRecord)],
                            [SendOperation minerOneDeleteRecord]))"
    by (simp add: DeleteShape_def GetOpRecordTraversal_def GetOpRecordTraversal_loop.simps
          VerifyOpRecordAuthor_def GetInkTraversal_def GetInkTraversal_loop.simps
          concatStrings_def broadcastNewOperation_def hash_defs string_defs test_data_defs
          Let_def)
  have o: "Op minerOneDeleteRecord = ''delete '' @ Op minerOneOpRecordOne"
    by (simp add: test_data_defs)
  have ab: "absent_from (blockChain orphanedGlobals) GENESIS_BLOCK_HASH opRecOneHash []"
    by (simp add: absent_from_def test_data_defs)
  from DeleteShape_owner_and_signature [where ext = toy_externals and m = minerOne
         and g = confirmedGlobals and req = "\<lparr>DelValidateNum = 0, DelShapeHash = opRecOneHash\<rparr>"
         and bs = "[opBlockMinerTwo]" and bh = blockThreeHash and opRecord = minerOneOpRecordOne
         and sig = "(11, 12)" and ink = 0 and later = "[deletedGlobals]"
         and final = deletedGlobals and e = None and ink' = 30
         and pending = "[(deleteOneHash, minerOneDeleteRecord)]"
         and msgs = "[SendOperation minerOneDeleteRecord]"]
       f au v d
  have c1: "(None :: error option) \<noteq> Some SHAPEOWNER"
    by (simp add: g)
  from DeleteShape_owner_and_signature [where ext = toy_externals and m = minerTwo
         and g = confirmedGlobals and req = "\<lparr>DelValidateNum = 0, DelShapeHash = opRecOneHash\<rparr>"
         and bs = "[opBlockMinerTwo]" and bh = blockThreeHash and opRecord = minerOneOpRecordOne
         and sig = "(21, 22)" and ink = 0 and later = "[deletedGlobals]"
         and final = deletedGlobals]
       f au
  have c2: "DeleteShape toy_externals minerTwo confirmedGlobals
         \<lparr>DelValidateNum = 0, DelShapeHash = opRecOneHash\<rparr> (21, 22) 0 [deletedGlobals]
         deletedGlobals
       = Some (Returns (Some SHAPEOWNER, 0, pendingOperations confirmedGlobals, []))"
    by (simp add: g)
  from DeleteShape_owner_and_signature [where ext = toy_externals and m = minerOne
         and g = orphanedGlobals and req = "\<lparr>DelValidateNum = 0, DelShapeHash = opRecOneHash\<rparr>"
         and bs = "[]" and sig = "(11, 12)" and ink = 0 and later = "[]"
         and final = orphanedGlobals]
       ab
  have c3: "DeleteShape toy_externals minerOne orphanedGlobals
         \<lparr>DelValidateNum = 0, DelShapeHash = opRecOneHash\<rparr> (11, 12) 0 [] orphanedGlobals
       = Some (Returns (Some SHAPEOWNER, 0, pendingOperations orphanedGlobals, []))"
    by (simp add: g)
  have pe: "pendingOperations confirmedGlobals = []" "pendingOperations orphanedGlobals = []"
    by (simp_all add: test_data_defs)
  from f d c1 o c2 c3 show ?thesis
    by (simp only: pe) blast
qed

section \<open>\<open>AddShape\<close>\<close>

lemma AddShape_pending_net:
  "clear_of_pending ext k path pending \<Longrightarrow>
   AddShape_pending ext k path pending acc = Returns (Inr (acc + pending_net k pending))"
proof (induction pending arbitrary: acc)
  case Nil
  then show ?case by (simp add: pending_net_def)
next
  case (Cons p pending)
  obtain h opr where p: "p = (h, opr)" by (cases p)
  from Cons.prems have rest: "clear_of_pending ext k path pending"
    by (simp add: clear_of_pending_def)
  have net: "pending_net k ((h, opr) # pending) = - op_ink_spec k opr + pending_net k pending"
    by (simp add: pending_net_def)
  show ?case
  proof (cases "AuthorPubKey opr = k")
    case True
    then show ?thesis
      using Cons.IH [OF rest] by (simp add: p net op_ink_spec_def)
  next
    case False
    with Cons.prems p obtain d fill where pp: "parsePath (Op opr) = Returns (d, fill)"
      and no: "\<not> CheckOverlap ext path (ConvertPathToPoints ext d)"
      by (auto simp: clear_of_pending_def split: outcome.splits)
    from False have "op_ink_spec k opr = 0" by (simp add: op_ink_spec_def)
    then show ?thesis
      using Cons.IH [OF rest] False pp no by (simp add: p net)
  qed
qed

text \<open>
  Claim C1, as stated, fails: the request is not judged against the balance with the
  pending refunds applied alone. \<open>AddShape\<close> first compares the required ink with
  the balance of the chain, and only then adds the author's pending ink. On the mock
  chain miner one has 10 ink and a pending delete that refunds 20; a line of 30 ink is
  within the 30 ink of the claim's balance, in bounds and free of overlap, and is
  rejected with INSUFFICIENTINK.
\<close>

theorem AddShape_rejects_despite_pending_refund:
  "GetInkTraversal minerOne (blockChain refundPendingGlobals) (minerKey minerOne)
     = Some (Returns 10)
   \<and> pending_net (minerKey minerOne) (pendingOperations refundPendingGlobals) = - 20
   \<and> CalculateInkRequired toy_externals
         (ConvertPathToPoints toy_externals (SvgString greenLineRequest))
         (IsTransparent greenLineRequest) (IsClosed greenLineRequest) = 30
   \<and> \<not> CheckOutOfBounds toy_externals
           (ConvertPathToPoints toy_externals (SvgString greenLineRequest))
           (CanvasXMax (canvasSettings (settings minerOne)))
           (CanvasYMax (canvasSettings (settings minerOne)))
   \<and> GetShapeTraversal minerOne (blockChain refundPendingGlobals) (minerKey minerOne)
       = Some (Returns [''M 50 50 L 60 60'', ''M 30 30 L 40 40''])
   \<and> \<not> CheckOverlap toy_externals (ConvertPathToPoints toy_externals ''M 50 50 L 60 60'')
           (ConvertPathToPoints toy_externals (SvgString greenLineRequest))
   \<and> \<not> CheckOverlap toy_externals (ConvertPathToPoints toy_externals ''M 30 30 L 40 40'')
           (ConvertPathToPoints toy_externals (SvgString greenLineRequest))
   \<and> AddShape toy_externals minerOne refundPendingGlobals greenLineRequest (11, 12)
        emptyResponse [] refundPendingGlobals
      = Some (Returns (Some INSUFFICIENTINK, emptyResponse,
                       pendingOperations refundPendingGlobals, []))"
proof -
  have b: "GetInkTraversal minerOne (blockChain refundPendingGlobals) (minerKey minerOne)
     = Some (Returns 10)"
    by (simp add: GetInkTraversal_def GetInkTraversal_loop.simps test_data_defs string_defs)
  have p: "pending_net (minerKey minerOne) (pendingOperations refundPendingGlobals) = - 20"
    by (simp add: pending_net_def op_ink_spec_def test_data_defs string_defs)
  have s: "GetShapeTraversal minerOne (blockChain refundPendingGlobals) (minerKey minerOne)
       = Some (Returns [''M 50 50 L 60 60'', ''M 30 30 L 40 40''])"
    by (simp add: GetShapeTraversal_def GetShapeTraversal_loop.simps getShapesFromOpRecords_def
          removeShapesDeleted_def test_data_defs string_defs)
  have a: "AddShape toy_externals minerOne refundPendingGlobals greenLineRequest (11, 12)
        emptyResponse [] refundPendingGlobals
      = Some (Returns (Some INSUFFICIENTINK, emptyResponse,
                       pendingOperations refundPendingGlobals, []))"
    by (simp add: AddShape_def b s Let_def toy_externals_def)
  show ?thesis
    using b p s a by (simp add: toy_externals_def)
qed

text \<open>
  Claim C1, amended. For a request that is in bounds and overlaps neither a shape of
  another author on the chain nor a pending operation of another author,
  \<open>AddShape\<close> answers INSUFFICIENTINK exactly when the balance of the chain is not
  positive, or the required ink exceeds that balance (taken as \<open>uint32\<close>), or the
  author's pending ink (creates minus deletes) plus the required ink exceeds it.
  Otherwise whatever it returns is not an insufficiency error.
\<close>

theorem AddShape_insufficient_ink:
  "GetInkTraversal m (blockChain g) (minerKey m) = Some (Returns balance)
   \<and> \<not> CheckOutOfBounds ext (ConvertPathToPoints ext (SvgString req))
          (CanvasXMax (canvasSettings (settings m))) (CanvasYMax (canvasSettings (settings m)))
   \<and> GetShapeTraversal m (blockChain g) (minerKey m) = Some (Returns shapes)
   \<and> \<not> list_ex (\<lambda>svg. CheckOverlap ext (ConvertPathToPoints ext svg)
                        (ConvertPathToPoints ext (SvgString req))) shapes
   \<and> clear_of_pending ext (minerKey m) (ConvertPathToPoints ext (SvgString req))
        (pendingOperations g)
   \<longrightarrow>
   (let inkRequired = CalculateInkRequired ext (ConvertPathToPoints ext (SvgString req))
                        (IsTransparent req) (IsClosed req);
        insufficient = (balance \<le> 0 \<or> inkRequired > word_of_int balance
          \<or> pending_net (minerKey m) (pendingOperations g) + uint inkRequired > balance)
    in (insufficient \<longrightarrow>
          AddShape ext m g req sig resp later final
            = Some (Returns (Some INSUFFICIENTINK, resp, pendingOperations g, [])))
     \<and> (\<not> insufficient \<longrightarrow>
          (\<forall>e resp' pending msgs.
             AddShape ext m g req sig resp later final
               = Some (Returns (e, resp', pending, msgs)) \<longrightarrow> e \<noteq> Some INSUFFICIENTINK)))"
proof (intro impI)
  assume a: "GetInkTraversal m (blockChain g) (minerKey m) = Some (Returns balance)
   \<and> \<not> CheckOutOfBounds ext (ConvertPathToPoints ext (SvgString req))
          (CanvasXMax (canvasSettings (settings m))) (CanvasYMax (canvasSettings (settings m)))
   \<and> GetShapeTraversal m (blockChain g) (minerKey m) = Some (Returns shapes)
   \<and> \<not> list_ex (\<lambda>svg. CheckOverlap ext (ConvertPathToPoints ext svg)
                        (ConvertPathToPoints ext (SvgString req))) shapes
   \<and> clear_of_pending ext (minerKey m) (ConvertPathToPoints ext (SvgString req))
        (pendingOperations g)"
  then have pn: "AddShape_pending ext (minerKey m) (ConvertPathToPoints ext (SvgString req))
                   (pendingOperations g) 0
                 = Returns (Inr (pending_net (minerKey m) (pendingOperations g)))"
    using AddShape_pending_net [of ext "minerKey m" _ "pendingOperations g" 0] by simp
  from a have b: "GetInkTraversal m (blockChain g) (minerKey m) = Some (Returns balance)"
    and ob: "\<not> CheckOutOfBounds ext (ConvertPathToPoints ext (SvgString req))
          (CanvasXMax (canvasSettings (settings m))) (CanvasYMax (canvasSettings (settings m)))"
    and sh: "GetShapeTraversal m (blockChain g) (minerKey m) = Some (Returns shapes)"
    and ov: "\<not> list_ex (\<lambda>svg. CheckOverlap ext (ConvertPathToPoints ext svg)
                        (ConvertPathToPoints ext (SvgString req))) shapes"
    by simp_all
  show "let inkRequired = CalculateInkRequired ext (ConvertPathToPoints ext (SvgString req))
                        (IsTransparent req) (IsClosed req);
        insufficient = (balance \<le> 0 \<or> inkRequired > word_of_int balance
          \<or> pending_net (minerKey m) (pendingOperations g) + uint inkRequired > balance)
    in (insufficient \<longrightarrow>
          AddShape ext m g req sig resp later final
            = Some (Returns (Some INSUFFICIENTINK, resp, pendingOperations g, [])))
     \<and> (\<not> insufficient \<longrightarrow>
          (\<forall>e resp' pending msgs.
             AddShape ext m g req sig resp later final
               = Some (Returns (e, resp', pending, msgs)) \<longrightarrow> e \<noteq> Some INSUFFICIENTINK))"
    unfolding Let_def
  proof (intro conjI impI allI)
    assume "balance \<le> 0
      \<or> CalculateInkRequired ext (ConvertPathToPoints ext (SvgString req))
           (IsTransparent req) (IsClosed req) > word_of_int balance
      \<or> pending_net (minerKey m) (pendingOperations g)
          + uint (CalculateInkRequired ext (ConvertPathToPoints ext (SvgString req))
                    (IsTransparent req) (IsClosed req)) > balance"
    then show "AddShape ext m g req sig resp later final
            = Some (Returns (Some INSUFFICIENTINK, resp, pendingOperations g, []))"
      using b ob sh ov pn by (auto simp: AddShape_def Let_def)
  next
    fix e resp' pending msgs
    assume n: "\<not> (balance \<le> 0
      \<or> CalculateInkRequired ext (ConvertPathToPoints ext (SvgString req))
           (IsTransparent req) (IsClosed req) > word_of_int balance
      \<or> pending_net (minerKey m) (pendingOperations g)
          + uint (CalculateInkRequired ext (ConvertPathToPoints ext (SvgString req))
                    (IsTransparent req) (IsClosed req)) > balance)"
    assume r: "AddShape ext m g req sig resp later final
               = Some (Returns (e, resp', pending, msgs))"
    from r n show "e \<noteq> Some INSUFFICIENTINK"
      using b ob sh ov pn
      by (auto simp: AddShape_def Let_def split: option.splits outcome.splits if_splits)
  qed
qed

theorem AddShape_insufficient_ink_witness:
  "AddShape toy_externals minerOne refundPendingGlobals greenLineRequest (11, 12)
        emptyResponse [] refundPendingGlobals
      = Some (Returns (Some INSUFFICIENTINK, emptyResponse,
                       pendingOperations refundPendingGlobals, []))
   \<and> AddShape toy_externals minerOne beforeGreenLineGlobals greenLineRequest (11, 12)
        emptyResponse [afterGreenLineGlobals] afterGreenLineGlobals
      = Some (Returns (None,
                \<lparr>ShapeHash = greenLineHash, BlockHash = blockSixHash, InkRemaining = 0\<rparr>,
                [(greenLineHash, greenLineRecord)], [SendOperation greenLineRecord]))
   \<and> (None :: error option) \<noteq> Some INSUFFICIENTINK"
proof -
  have path: "ConvertPathToPoints toy_externals (SvgString greenLineRequest) = []"
    and req: "CalculateInkRequired toy_externals [] (IsTransparent greenLineRequest)
                (IsClosed greenLineRequest) = 30"
    and ob: "\<not> CheckOutOfBounds toy_externals []
          (CanvasXMax (canvasSettings (settings minerOne)))
          (CanvasYMax (canvasSettings (settings minerOne)))"
    by (simp_all add: toy_externals_def)
  have ov: "\<And>shapes. \<not> list_ex (\<lambda>svg. CheckOverlap toy_externals
              (ConvertPathToPoints toy_externals svg) []) shapes"
    by (simp add: toy_externals_def list_ex_iff)
  have b1: "GetInkTraversal minerOne (blockChain refundPendingGlobals) (minerKey minerOne)
     = Some (Returns 10)"
    by (simp add: GetInkTraversal_def GetInkTraversal_loop.simps test_data_defs string_defs)
  have s1: "GetShapeTraversal minerOne (blockChain refundPendingGlobals) (minerKey minerOne)
       = Some (Returns [''M 50 50 L 60 60'', ''M 30 30 L 40 40''])"
    by (simp add: GetShapeTraversal_def GetShapeTraversal_loop.simps getShapesFromOpRecords_def
          removeShapesDeleted_def test_data_defs string_defs)
  have c1: "clear_of_pending toy_externals (minerKey minerOne) []
              (pendingOperations refundPendingGlobals)"
    by (simp add: clear_of_pending_def test_data_defs)
  have b2: "GetInkTraversal minerOne (blockChain beforeGreenLineGlobals) (minerKey minerOne)
     = Some (Returns 30)"
    by (simp add: GetInkTraversal_def GetInkTraversal_loop.simps test_data_defs string_defs)
  have s2: "GetShapeTraversal minerOne (blockChain beforeGreenLineGlobals) (minerKey minerOne)
       = Some (Returns [''M 50 50 L 60 60'', ''M 30 30 L 40 40''])"
    by (simp add: GetShapeTraversal_def GetShapeTraversal_loop.simps getShapesFromOpRecords_def
          removeShapesDeleted_def test_data_defs string_defs)
  have c2: "clear_of_pending toy_externals (minerKey minerOne) []
              (pendingOperations beforeGreenLineGlobals)"
    by (simp add: clear_of_pending_def test_data_defs)
  have n2: "pending_net (minerKey minerOne) (pendingOperations beforeGreenLineGlobals) = 0"
    by (simp add: pending_net_def test_data_defs)
  have r2: "AddShape toy_externals minerOne beforeGreenLineGlobals greenLineRequest (11, 12)
        emptyResponse [afterGreenLineGlobals] afterGreenLineGlobals
      = Some (Returns (None,
                \<lparr>ShapeHash = greenLineHash, BlockHash = blockSixHash, InkRemaining = 0\<rparr>,
                [(greenLineHash, greenLineRecord)], [SendOperation greenLineRecord]))"
    by (simp add: AddShape_def Let_def GetInkTraversal_def GetInkTraversal_loop.simps
          GetShapeTraversal_def GetShapeTraversal_loop.simps getShapesFromOpRecords_def
          removeShapesDeleted_def GetOpRecordTraversal_def GetOpRecordTraversal_loop.simps
          VerifyOpRecordAuthor_def broadcastNewOperation_def hash_defs string_defs
          test_data_defs)
  from AddShape_insufficient_ink [where ext = toy_externals and m = minerOne
         and g = refundPendingGlobals and req = greenLineRequest and balance = 10
         and shapes = "[''M 50 50 L 60 60'', ''M 30 30 L 40 40'']" and sig = "(11, 12)"
         and resp = emptyResponse and later = "[]" and final = refundPendingGlobals]
       b1 s1 c1 ob ov
  have w1: "AddShape toy_externals minerOne refundPendingGlobals greenLineRequest (11, 12)
        emptyResponse [] refundPendingGlobals
      = Some (Returns (Some INSUFFICIENTINK, emptyResponse,
                       pendingOperations refundPendingGlobals, []))"
    by (simp add: path req Let_def)
  from AddShape_insufficient_ink [where ext = toy_externals and m = minerOne
         and g = beforeGreenLineGlobals and req = greenLineRequest and balance = 30
         and shapes = "[''M 50 50 L 60 60'', ''M 30 30 L 40 40'']" and sig = "(11, 12)"
         and resp = emptyResponse and later = "[afterGreenLineGlobals]"
         and final = afterGreenLineGlobals]
       b2 s2 c2 ob ov r2
  have w2: "(None :: error option) \<noteq> Some INSUFFICIENTINK"
    by (simp add: path req n2 Let_def)
  from w1 r2 w2 show ?thesis by blast
qed

section \<open>Proof of work of the blocks that enter the store\<close>

lemma hexdigit_hex_all: "\<forall>n<16. hexdigit n \<in> set ''0123456789abcdef''"
  by (simp add: hexdigit_def eval_nat_numeral All_less_Suc)

lemma hexdigit_hex: "n < 16 \<Longrightarrow> hexdigit n \<in> set ''0123456789abcdef''"
  using hexdigit_hex_all by blast

lemma hex_EncodeToString_length: "length (hex_EncodeToString w) = 32"
  by (simp add: hex_EncodeToString_def)

lemma hex_EncodeToString_digits:
  "list_all (\<lambda>c. c \<in> set ''0123456789abcdef'') (hex_EncodeToString w)"
  unfolding hex_EncodeToString_def list_all_iff
  using hexdigit_hex by (auto simp del: set_simps)

lemma verifyTrailingZeros_loop_beyond:
  "length hash = 32 \<Longrightarrow> 32 < unat numZeros \<Longrightarrow> unat i \<le> 32 \<Longrightarrow>
   verifyTrailingZeros_loop hash numZeros i \<noteq> Returns True"
proof (induction hash numZeros i rule: verifyTrailingZeros_loop.induct)
  case (1 hash numZeros i)
  from "1.prems" have lt: "i < numZeros" by (simp add: word_less_nat_alt)
  show ?case
  proof (cases "unat i = 32")
    case True
    then have "unat (31 - i) = 255" by (simp add: unat_sub_if')
    then show ?thesis
      using lt "1.prems" by (subst verifyTrailingZeros_loop.simps) simp
  next
    case False
    with "1.prems" have i31: "unat i \<le> 31" by simp
    have idx: "unat (31 - i) = 31 - unat i" using i31 by (rule unat_31_minus)
    have inb: "unat (31 - i) < length hash" using idx "1.prems" by simp
    have suc: "unat (i + 1) = unat i + 1" using lt by (rule unat_succ_below)
    show ?thesis
    proof (cases "hash ! unat (31 - i) = CHR ''0''")
      case False
      then show ?thesis
        using lt inb by (subst verifyTrailingZeros_loop.simps) simp
    next
      case z: True
      have "verifyTrailingZeros_loop hash numZeros (i + 1) \<noteq> Returns True"
        using "1.IH" [OF lt inb _ "1.prems"(1,2)] z suc i31 by simp
      then show ?thesis
        using lt inb z by (subst verifyTrailingZeros_loop.simps) simp
    qed
  qed
qed

lemma verifyTrailingZeros_True:
  assumes "verifyTrailingZeros hash numZeros = Returns True" and "length hash = 32"
  shows "unat numZeros \<le> 32
         \<and> list_all (\<lambda>c. c = CHR ''0'') (drop (32 - unat numZeros) hash)"
proof -
  have le: "unat numZeros \<le> 32"
  proof (rule ccontr)
    assume "\<not> unat numZeros \<le> 32"
    then have "verifyTrailingZeros_loop hash numZeros 0 \<noteq> Returns True"
      using verifyTrailingZeros_loop_beyond [OF assms(2), of numZeros 0] by simp
    with assms(1) show False by (simp add: verifyTrailingZeros_def)
  qed
  with assms verifyTrailingZeros_32 [OF assms(2) le]
  show ?thesis by (simp add: list_all_iff)
qed

lemma has_proof_of_work_iff:
  "has_proof_of_work ext m block
     = (verifyTrailingZeros (ComputeBlockHash ext block) (difficulty m block) = Returns True)"
proof
  assume "has_proof_of_work ext m block"
  then have le: "unat (difficulty m block) \<le> 32"
    and z: "list_all (\<lambda>c. c = CHR ''0'')
              (drop (32 - unat (difficulty m block)) (ComputeBlockHash ext block))"
    by (simp_all add: has_proof_of_work_def Let_def)
  have len: "length (ComputeBlockHash ext block) = 32"
    by (simp add: ComputeBlockHash_def hex_EncodeToString_length)
  from verifyTrailingZeros_32 [OF len le] z
  show "verifyTrailingZeros (ComputeBlockHash ext block) (difficulty m block) = Returns True"
    by (simp add: list_all_iff)
next
  assume v: "verifyTrailingZeros (ComputeBlockHash ext block) (difficulty m block) = Returns True"
  have len: "length (ComputeBlockHash ext block) = 32"
    by (simp add: ComputeBlockHash_def hex_EncodeToString_length)
  have dig: "list_all (\<lambda>c. c \<in> set ''0123456789abcdef'') (ComputeBlockHash ext block)"
    unfolding ComputeBlockHash_def by (rule hex_EncodeToString_digits)
  from verifyTrailingZeros_True [OF v len] len dig
  show "has_proof_of_work ext m block"
    by (simp add: has_proof_of_work_def Let_def)
qed

lemma computeBlock_loop_proof_of_work:
  assumes "computeBlock_loop ext m g nonce = Some r"
  shows "\<forall>block. r = Returns block \<longrightarrow>
           OpRecords block = pendingOperations g
           \<and> verifyTrailingZeros (ComputeBlockHash ext block) (difficulty m block) = Returns True"
  using assms
proof (induction ext m g nonce r rule: computeBlock_loop.raw_induct)
  case (1 loop ext m g nonce r)
  show ?case
  proof (intro allI impI)
    fix block assume r: "r = Returns block"
    from "1.hyps" r obtain nextBlockNum where n:
      "(if Blocks (blockChain g) = [] then Some FirstBlockNum
        else map_option (\<lambda>newest. BlockNum newest + 1)
               (map_of (Blocks (blockChain g)) (NewestHash (blockChain g)))) = Some nextBlockNum"
      by (auto split: option.splits)
    let ?candidate = "\<lparr>BlockNum = nextBlockNum, PrevHash = NewestHash (blockChain g),
       OpRecords = pendingOperations g, MinerPubKey = Some (minerKey m), Nonce = nonce\<rparr>"
    have d: "(if pendingOperations g = [] then PoWDifficultyNoOpBlock (settings m)
              else PoWDifficultyOpBlock (settings m)) = difficulty m ?candidate"
      by (simp add: difficulty_def)
    from "1.hyps" r n obtain ok where v:
      "verifyTrailingZeros (ComputeBlockHash ext ?candidate)
         (if pendingOperations g = [] then PoWDifficultyNoOpBlock (settings m)
          else PoWDifficultyOpBlock (settings m)) = Returns ok"
      by (auto split: outcome.splits)
    show "OpRecords block = pendingOperations g
           \<and> verifyTrailingZeros (ComputeBlockHash ext block) (difficulty m block) = Returns True"
    proof (cases ok)
      case True
      with "1.hyps" r n v have "block = ?candidate" by simp
      with v True d show ?thesis by simp
    next
      case False
      with "1.hyps" n v have "loop ext m g (nonce + 1) = Some r" by simp
      moreover from "1.prems" n v False
      have "computeBlock_loop ext m g (nonce + 1) = Some r"
        by (subst (asm) computeBlock_loop.simps) simp
      ultimately have "\<forall>block. r = Returns block \<longrightarrow>
           OpRecords block = pendingOperations g
           \<and> verifyTrailingZeros (ComputeBlockHash ext block) (difficulty m block) = Returns True"
        by (rule "1.IH")
      with r show ?thesis by blast
    qed
  qed
qed (rule assms)

lemma startMiningBlocks_round_proof_of_work:
  assumes "startMiningBlocks_round ext m g = Some (Returns (g', msgs))"
  shows "\<exists>block. msgs = [SendBlock block]
           \<and> map_of (Blocks (blockChain g')) (ComputeBlockHash ext block) = Some block
           \<and> NewestHash (blockChain g') = ComputeBlockHash ext block
           \<and> has_proof_of_work ext m block"
proof -
  from assms obtain block where c: "computeBlock ext m g = Some (Returns block)"
    by (auto simp: startMiningBlocks_round_def split: option.splits outcome.splits)
  then have "has_proof_of_work ext m block"
    using computeBlock_loop_proof_of_work [of ext m g FirstNonce "Returns block"]
    by (simp add: computeBlock_def has_proof_of_work_iff)
  moreover from assms c have "msgs = [SendBlock block]"
    and "map_of (Blocks (blockChain g')) (ComputeBlockHash ext block) = Some block"
    and "NewestHash (blockChain g') = ComputeBlockHash ext block"
    by (auto simp: startMiningBlocks_round_def update_conv')
  ultimately show ?thesis by blast
qed

lemma isValidBlock_proof_of_work:
  "isValidBlock ext m majority g block = Some (Returns (True, g2)) \<Longrightarrow>
   has_proof_of_work ext m block"
  unfolding has_proof_of_work_iff
  by (auto simp: isValidBlock_def Let_def difficulty_def
           split: option.splits outcome.splits if_splits)

lemma DisseminateBlock_cases:
  assumes "DisseminateBlock ext m majority g block = Some (Returns (e, g', msgs))"
  shows "e = None
    \<and> ((\<exists>g2. isValidBlock ext m majority g block = Some (Returns (True, g2))
          \<and> msgs = [SendBlock block]
          \<and> map_of (Blocks (blockChain g')) (ComputeBlockHash ext block) = Some block)
       \<or> (isValidBlock ext m majority g block = Some (Returns (False, g')) \<and> msgs = []))"
  using assms
  by (auto simp: DisseminateBlock_def saveBlockToBlockChain_def switchToLongestBranch_def
                 Let_def update_conv'
           split: option.splits outcome.splits if_splits)

text \<open>
  Claim C2. Every block that the miner puts into its store, mined by itself or received
  via gossip, has a hash of 32 lowercase hexadecimal characters that ends in at least
  \<open>difficulty\<close> characters \<open>'0'\<close>, the NoOp difficulty when the block has no
  operations and the Op difficulty otherwise. A gossiped block whose hash fails this is
  rejected: judged invalid, not stored by the call and not forwarded.
\<close>

theorem accepted_block_has_proof_of_work:
  "(startMiningBlocks_round ext m g = Some (Returns (g', msgs)) \<longrightarrow>
      (\<exists>block. msgs = [SendBlock block]
         \<and> map_of (Blocks (blockChain g')) (ComputeBlockHash ext block) = Some block
         \<and> NewestHash (blockChain g') = ComputeBlockHash ext block
         \<and> has_proof_of_work ext m block))
   \<and> (DisseminateBlock ext m majority g block = Some (Returns (e, g', msgs)) \<and> msgs \<noteq> [] \<longrightarrow>
        msgs = [SendBlock block]
        \<and> map_of (Blocks (blockChain g')) (ComputeBlockHash ext block) = Some block
        \<and> has_proof_of_work ext m block)
   \<and> (DisseminateBlock ext m majority g block = Some (Returns (e, g', msgs))
        \<and> \<not> has_proof_of_work ext m block \<longrightarrow>
        e = None \<and> msgs = []
        \<and> isValidBlock ext m majority g block = Some (Returns (False, g')))"
proof (intro conjI impI)
  assume "startMiningBlocks_round ext m g = Some (Returns (g', msgs))"
  then show "\<exists>block. msgs = [SendBlock block]
         \<and> map_of (Blocks (blockChain g')) (ComputeBlockHash ext block) = Some block
         \<and> NewestHash (blockChain g') = ComputeBlockHash ext block
         \<and> has_proof_of_work ext m block"
    by (rule startMiningBlocks_round_proof_of_work)
next
  assume a: "DisseminateBlock ext m majority g block = Some (Returns (e, g', msgs)) \<and> msgs \<noteq> []"
  with DisseminateBlock_cases [of ext m majority g block e g' msgs]
  obtain g2 where v: "isValidBlock ext m majority g block = Some (Returns (True, g2))"
    and s: "msgs = [SendBlock block]"
      "map_of (Blocks (blockChain g')) (ComputeBlockHash ext block) = Some block"
    by auto
  from s show "msgs = [SendBlock block]" by simp
  from s show "map_of (Blocks (blockChain g')) (ComputeBlockHash ext block) = Some block" by simp
  from v show "has_proof_of_work ext m block" by (rule isValidBlock_proof_of_work)
next
  assume a: "DisseminateBlock ext m majority g block = Some (Returns (e, g', msgs))
        \<and> \<not> has_proof_of_work ext m block"
  with DisseminateBlock_cases [of ext m majority g block e g' msgs] isValidBlock_proof_of_work
  have "e = None \<and> msgs = []
        \<and> isValidBlock ext m majority g block = Some (Returns (False, g'))"
    by blast
  then show "e = None" "msgs = []"
    "isValidBlock ext m majority g block = Some (Returns (False, g'))" by simp_all
qed

theorem accepted_block_has_proof_of_work_witness:
  "startMiningBlocks_round toy_externals minerOne orphanedGlobals
     = Some (Returns (oneBlockGlobals, [SendBlock noOPBlockMinerOne]))
   \<and> has_proof_of_work toy_externals minerOne noOPBlockMinerOne
   \<and> DisseminateBlock toy_externals minerOne emptyBlockChain oneBlockGlobals noOPBlockMinerTwo
     = Some (Returns (None, twoBlockGlobals, [SendBlock noOPBlockMinerTwo]))
   \<and> has_proof_of_work toy_externals minerOne noOPBlockMinerTwo
   \<and> \<not> has_proof_of_work toy_externals minerOne (noOPBlockMinerTwo\<lparr>Nonce := 1\<rparr>)
   \<and> DisseminateBlock toy_externals minerOne emptyBlockChain oneBlockGlobals
       (noOPBlockMinerTwo\<lparr>Nonce := 1\<rparr>)
     = Some (Returns (None, oneBlockGlobals, []))
   \<and> isValidBlock toy_externals minerOne emptyBlockChain oneBlockGlobals
       (noOPBlockMinerTwo\<lparr>Nonce := 1\<rparr>)
     = Some (Returns (False, oneBlockGlobals))"
proof -
  have mine: "startMiningBlocks_round toy_externals minerOne orphanedGlobals
     = Some (Returns (oneBlockGlobals, [SendBlock noOPBlockMinerOne]))"
    by (simp add: startMiningBlocks_round_def computeBlock_def computeBlock_loop.simps
          verifyTrailingZeros_def FirstNonce_def FirstBlockNum_def
          removeOperationsFromPendingOperations_def hash_defs test_data_defs)
  have acc: "DisseminateBlock toy_externals minerOne emptyBlockChain oneBlockGlobals
       noOPBlockMinerTwo
     = Some (Returns (None, twoBlockGlobals, [SendBlock noOPBlockMinerTwo]))"
    by (simp add: DisseminateBlock_def isValidBlock_def Let_def saveBlockToBlockChain_def
          switchToLongestBranch_def verifyTrailingZeros_def
          removeOperationsFromPendingOperations_def hash_defs test_data_defs)
  have rej: "DisseminateBlock toy_externals minerOne emptyBlockChain oneBlockGlobals
       (noOPBlockMinerTwo\<lparr>Nonce := 1\<rparr>)
     = Some (Returns (None, oneBlockGlobals, []))"
    by (simp add: DisseminateBlock_def isValidBlock_def Let_def saveBlockToBlockChain_def
          switchToLongestBranch_def verifyTrailingZeros_def
          removeOperationsFromPendingOperations_def hash_defs test_data_defs)
  have nopow: "\<not> has_proof_of_work toy_externals minerOne (noOPBlockMinerTwo\<lparr>Nonce := 1\<rparr>)"
    by (simp add: has_proof_of_work_def Let_def difficulty_def hash_defs test_data_defs)
  note inst1 = accepted_block_has_proof_of_work [where ext = toy_externals and m = minerOne
      and g = orphanedGlobals and g' = oneBlockGlobals
      and msgs = "[SendBlock noOPBlockMinerOne]"]
  from inst1 mine have "has_proof_of_work toy_externals minerOne noOPBlockMinerOne"
    by auto
  moreover
  note inst2 = accepted_block_has_proof_of_work [where ext = toy_externals and m = minerOne
      and majority = emptyBlockChain and g = oneBlockGlobals and block = noOPBlockMinerTwo
      and e = None and g' = twoBlockGlobals and msgs = "[SendBlock noOPBlockMinerTwo]"]
  from inst2 acc have "has_proof_of_work toy_externals minerOne noOPBlockMinerTwo"
    by simp
  moreover
  note inst3 = accepted_block_has_proof_of_work [where ext = toy_externals and m = minerOne
      and majority = emptyBlockChain and g = oneBlockGlobals
      and block = "noOPBlockMinerTwo\<lparr>Nonce := 1\<rparr>"
      and e = None and g' = oneBlockGlobals and msgs = "[]"]
  from inst3 rej nopow
  have "isValidBlock toy_externals minerOne emptyBlockChain oneBlockGlobals
       (noOPBlockMinerTwo\<lparr>Nonce := 1\<rparr>)
     = Some (Returns (False, oneBlockGlobals))"
    by blast
  ultimately show ?thesis using mine acc rej nopow by blast
qed

end
